theory Spec2Isabelle
  imports Main
begin

section \<open>JavaScript values and the built-in operations the client relies on\<close>

text \<open>
  Decoded provider payloads, tool results and query parameters are untyped at run time
  (\<^verbatim>\<open>unknown\<close>, \<^verbatim>\<open>Record<string, unknown>\<close>), so they are modelled by one datatype of
  JavaScript values. Strings are lists of code units in the range U+0000 to U+00FF.
  The client never computes with the numbers of a payload: it tests them for truth, and
  it prints them. So a number other than \<^verbatim>\<open>NaN\<close> is represented by the text that
  \<^verbatim>\<open>String\<close> gives for it, which determines the number up to the sign of zero:
  \<^verbatim>\<open>20\<close> is \<open>JNum ''20''\<close>, \<^verbatim>\<open>0.5\<close> is \<open>JNum ''0.5''\<close>, \<^verbatim>\<open>1e21\<close> is \<open>JNum ''1e+21''\<close>, and
  both zeros are \<open>JNum ''0''\<close>. An object is the list of its own enumerable properties in
  enumeration order.
\<close>

datatype jsval =
    JUndefined
  | JNull
  | JBool bool
  | JNaN
  | JNum string
  | JStr string
  | JArr "jsval list"
  | JObj "(string \<times> jsval) list"

text \<open>
  Modelled from the spec: the error classes of \<^verbatim>\<open>utils/errors.ts\<close>, which the client
  imports and which are not among the sources. Each constructor takes the arguments of the
  \<^verbatim>\<open>new\<close> expressions in the client: a message, and the seconds to wait or the HTTP
  status. \<^verbatim>\<open>TypeError\<close> and \<^verbatim>\<open>SyntaxError\<close> are the built-in errors of a failed property
  read, call or conversion and of a failed \<^verbatim>\<open>JSON.parse\<close>.
\<close>

datatype error =
    AuthenticationError string
  | RateLimitError string jsval
  | DigitalOceanApiError jsval nat
  | TypeError
  | SyntaxError

text \<open>Sequencing of steps that may throw: the first error ends the computation.\<close>

definition and_then :: "error + 'a \<Rightarrow> ('a \<Rightarrow> error + 'b) \<Rightarrow> error + 'b" where
  "and_then m f = (case m of Inl e \<Rightarrow> Inl e | Inr x \<Rightarrow> f x)"

fun map_err :: "('a \<Rightarrow> error + 'b) \<Rightarrow> 'a list \<Rightarrow> error + 'b list" where
  "map_err f [] = Inr []"
| "map_err f (x # xs) =
     and_then (f x) (\<lambda>y. and_then (map_err f xs) (\<lambda>ys. Inr (y # ys)))"

text \<open>\<^verbatim>\<open>Array.prototype.join\<close> on strings that are already converted.\<close>

fun join :: "string \<Rightarrow> string list \<Rightarrow> string" where
  "join sep [] = []"
| "join sep [x] = x"
| "join sep (x # y # ys) = x @ sep @ join sep (y # ys)"

text \<open>The decimal numeral of a natural number: an HTTP status, a length, an index.\<close>

fun show_nat :: "nat \<Rightarrow> string" where
  "show_nat n =
     (if n < 10 then [''0123456789'' ! n]
      else show_nat (n div 10) @ [''0123456789'' ! (n mod 10)])"

fun nullish :: "jsval \<Rightarrow> bool" where
  "nullish JUndefined = True"
| "nullish JNull = True"
| "nullish v = False"

text \<open>
  Truthiness, as tested by \<^verbatim>\<open>!x\<close>, \<^verbatim>\<open>x ? a : b\<close> and \<^verbatim>\<open>x || y\<close>. Of the numbers, the
  zeros and \<^verbatim>\<open>NaN\<close> are falsy.
\<close>

fun truthy :: "jsval \<Rightarrow> bool" where
  "truthy JUndefined = False"
| "truthy JNull = False"
| "truthy (JBool b) = b"
| "truthy JNaN = False"
| "truthy (JNum t) = (t \<noteq> ''0'')"
| "truthy (JStr s) = (s \<noteq> [])"
| "truthy (JArr xs) = True"
| "truthy (JObj kvs) = True"

text \<open>
  \<^verbatim>\<open>String(v)\<close>, which is also the conversion inside a template literal. An array is
  its elements joined by commas, \<^verbatim>\<open>undefined\<close> and \<^verbatim>\<open>null\<close> elements being empty. An object
  is \<^verbatim>\<open>[object Object]\<close>, by the \<^verbatim>\<open>toString\<close> it inherits; when it has an own property
  \<^verbatim>\<open>toString\<close>, which in decoded JSON is never a function, the conversion throws.
\<close>

fun ToString :: "jsval \<Rightarrow> error + string"
  and ToString_elements :: "jsval list \<Rightarrow> error + string list"
where
  "ToString JUndefined = Inr ''undefined''"
| "ToString JNull = Inr ''null''"
| "ToString (JBool b) = Inr (if b then ''true'' else ''false'')"
| "ToString JNaN = Inr ''NaN''"
| "ToString (JNum t) = Inr t"
| "ToString (JStr s) = Inr s"
| "ToString (JArr xs) =
     (case ToString_elements xs of Inl e \<Rightarrow> Inl e | Inr ss \<Rightarrow> Inr (join '','' ss))"
| "ToString (JObj kvs) =
     (if map_of kvs ''toString'' \<noteq> None then Inl TypeError else Inr ''[object Object]'')"
| "ToString_elements [] = Inr []"
| "ToString_elements (x # xs) =
     (case (if nullish x then Inr [] else ToString x) of
        Inl e \<Rightarrow> Inl e
      | Inr s \<Rightarrow> (case ToString_elements xs of Inl e \<Rightarrow> Inl e | Inr ss \<Rightarrow> Inr (s # ss)))"

text \<open>\<^verbatim>\<open>Array.prototype.join\<close> on values.\<close>

definition array_join :: "string \<Rightarrow> jsval list \<Rightarrow> error + string" where
  "array_join sep xs = and_then (ToString_elements xs) (\<lambda>ss. Inr (join sep ss))"

text \<open>\<^verbatim>\<open>typeof v === 'object'\<close>: true of \<^verbatim>\<open>null\<close>, arrays and objects.\<close>

fun typeof_object :: "jsval \<Rightarrow> bool" where
  "typeof_object JNull = True"
| "typeof_object (JArr xs) = True"
| "typeof_object (JObj kvs) = True"
| "typeof_object v = False"

fun is_digit :: "char \<Rightarrow> bool" where
  "is_digit c = (c \<in> set ''0123456789'')"

fun digit_val :: "char \<Rightarrow> nat" where
  "digit_val c = of_char c - 48"

definition digits_val :: "string \<Rightarrow> nat" where
  "digits_val ds = foldl (\<lambda>acc c. 10 * acc + digit_val c) 0 ds"

text \<open>
  An array index as a property key: the canonical decimal numeral of a natural number.
\<close>

definition index_of_key :: "string \<Rightarrow> nat option" where
  "index_of_key k =
     (if k \<noteq> [] \<and> list_all is_digit k \<and> show_nat (digits_val k) = k
      then Some (digits_val k) else None)"

text \<open>
  Reading a property under a name the client writes out, \<^verbatim>\<open>v.k\<close>: a \<^verbatim>\<open>TypeError\<close> on
  \<^verbatim>\<open>undefined\<close> and \<^verbatim>\<open>null\<close>, the own property otherwise, \<^verbatim>\<open>undefined\<close> when there is
  none. The names the client writes out (\<^verbatim>\<open>message\<close>, \<^verbatim>\<open>id\<close>, \<^verbatim>\<open>meta\<close>, \<^verbatim>\<open>links\<close>,
  \<^verbatim>\<open>pages\<close>, \<^verbatim>\<open>next\<close>, \<^verbatim>\<open>total\<close>, \<^verbatim>\<open>items\<close>, \<^verbatim>\<open>count\<close>, the list names such as
  \<^verbatim>\<open>droplets\<close>, and the fields of the tables) are not names of members of the built-in
  prototypes, so nothing is inherited under them. A name that comes from the data is read
  by \<open>member_of\<close> below.
\<close>

fun get_prop :: "jsval \<Rightarrow> string \<Rightarrow> error + jsval" where
  "get_prop JUndefined k = Inl TypeError"
| "get_prop JNull k = Inl TypeError"
| "get_prop (JObj kvs) k = Inr (case map_of kvs k of None \<Rightarrow> JUndefined | Some v \<Rightarrow> v)"
| "get_prop (JArr xs) k =
     Inr (if k = ''length'' then JNum (show_nat (length xs))
          else case index_of_key k of
                 None \<Rightarrow> JUndefined
               | Some i \<Rightarrow> if i < length xs then xs ! i else JUndefined)"
| "get_prop (JStr s) k =
     Inr (if k = ''length'' then JNum (show_nat (length s))
          else case index_of_key k of
                 None \<Rightarrow> JUndefined
               | Some i \<Rightarrow> if i < length s then JStr [s ! i] else JUndefined)"
| "get_prop v k = Inr JUndefined"

text \<open>Optional chaining, \<^verbatim>\<open>v?.k\<close>.\<close>

definition opt_prop :: "jsval \<Rightarrow> string \<Rightarrow> jsval" where
  "opt_prop v k = (case get_prop v k of Inl e \<Rightarrow> JUndefined | Inr w \<Rightarrow> w)"

text \<open>\<^verbatim>\<open>a || b\<close> on values.\<close>

definition or_else :: "jsval \<Rightarrow> jsval \<Rightarrow> jsval" where
  "or_else a b = (if truthy a then a else b)"

text \<open>The value of an own property of an object, \<^verbatim>\<open>undefined\<close> when it has none of the name.\<close>

definition own :: "(string \<times> jsval) list \<Rightarrow> string \<Rightarrow> jsval" where
  "own kvs k = (case map_of kvs k of None \<Rightarrow> JUndefined | Some v \<Rightarrow> v)"

text \<open>\<^verbatim>\<open>String.prototype.includes\<close>.\<close>

fun str_includes :: "string \<Rightarrow> string \<Rightarrow> bool" where
  "str_includes [] t = (t = [])"
| "str_includes (c # cs) t = (take (length t) (c # cs) = t \<or> str_includes cs t)"

section \<open>The HTTP boundary\<close>

record TenantCredentials =
  token :: string
  baseUrl :: "string option"

record RequestInit =
  init_method :: "string option"
  init_headers :: "(string \<times> string) list option"
  init_body :: "string option"

record Response =
  status :: nat
  headers :: "(string \<times> string) list"
  body :: string

text \<open>
  What the platform provides: \<^verbatim>\<open>fetch\<close> (\<open>None\<close> when the promise is rejected, which
  surfaces as a \<^verbatim>\<open>TypeError\<close>), \<^verbatim>\<open>JSON.parse\<close> (\<open>None\<close> for a \<^verbatim>\<open>SyntaxError\<close>), the
  query pairs of \<^verbatim>\<open>new URL(u).searchParams\<close> (\<open>None\<close> when the constructor throws), and
  \<open>Number_text n\<close>, the text of the Number nearest to an integer \<open>n\<close> above \<open>2^53\<close>, where
  the rounding to a double, and past twenty digits the approximation, are the engine's.
  The client is modelled for every platform.
\<close>

record platform =
  fetch :: "string \<Rightarrow> RequestInit \<Rightarrow> Response option"
  JSON_parse :: "string \<Rightarrow> jsval option"
  URL_searchParams :: "string \<Rightarrow> (string \<times> string) list option"
  Number_text :: "nat \<Rightarrow> string"

text \<open>
  \<^verbatim>\<open>parseInt(s, 10)\<close>: leading white space is skipped, one sign is read, then the longest
  run of decimal digits; no digit at all gives \<^verbatim>\<open>NaN\<close>, and whatever follows the digits is
  ignored. Up to \<open>2^53\<close> the integer read is a Number, whose text is its decimal numeral;
  above, the result is the Number nearest to it.
\<close>

fun is_white_space :: "char \<Rightarrow> bool" where
  "is_white_space c = (c \<in> set [CHR 0x09, CHR 0x0A, CHR 0x0B, CHR 0x0C, CHR 0x0D, CHR 0x20, CHR 0xA0])"

definition parseInt :: "platform \<Rightarrow> string \<Rightarrow> jsval" where
  "parseInt pf s =
     (let t = dropWhile is_white_space s;
          neg = (t \<noteq> [] \<and> hd t = CHR ''-'');
          u = (if t \<noteq> [] \<and> (hd t = CHR ''-'' \<or> hd t = CHR ''+'') then tl t else t);
          ds = takeWhile is_digit u;
          n = digits_val ds
      in if ds = [] then JNaN
         else if n = 0 then JNum ''0''
         else JNum ((if neg then ''-'' else [])
                    @ (if n \<le> 9007199254740992 then show_nat n else Number_text pf n)))"

text \<open>The observable effects of one call, in order.\<close>

datatype event = Fetch string RequestInit | ReadText | ReadJson

definition toLowerCase_ascii :: "char \<Rightarrow> char" where
  "toLowerCase_ascii c =
     (case map_of (zip ''ABCDEFGHIJKLMNOPQRSTUVWXYZ'' ''abcdefghijklmnopqrstuvwxyz'') c of
        None \<Rightarrow> c | Some d \<Rightarrow> d)"

text \<open>
  \<^verbatim>\<open>Headers.get\<close>: names match without regard to ASCII case, and the values of a repeated
  header are joined by a comma and a space.
\<close>

definition headers_get :: "(string \<times> string) list \<Rightarrow> string \<Rightarrow> string option" where
  "headers_get hs name =
     (case filter (\<lambda>kv. map toLowerCase_ascii (fst kv) = map toLowerCase_ascii name) hs of
        [] \<Rightarrow> None
      | kvs \<Rightarrow> Some (join '', '' (map snd kvs)))"

definition ok :: "Response \<Rightarrow> bool" where
  "ok r = (200 \<le> status r \<and> status r \<le> 299)"

text \<open>Object spread \<^verbatim>\<open>{...a, ...b}\<close> on string-valued records.\<close>

fun set_key :: "string \<Rightarrow> 'v \<Rightarrow> (string \<times> 'v) list \<Rightarrow> (string \<times> 'v) list" where
  "set_key k v [] = [(k, v)]"
| "set_key k v (p # ps) = (if fst p = k then (k, v) # ps else p # set_key k v ps)"

definition spread :: "(string \<times> 'v) list \<Rightarrow> (string \<times> 'v) list \<Rightarrow> (string \<times> 'v) list" where
  "spread a b = foldl (\<lambda>acc kv. set_key (fst kv) (snd kv) acc) a b"

section \<open>The error taxonomy\<close>

datatype error_kind = Authentication | RateLimit | Generic

text \<open>
  Modelled from the spec: the fields of the error classes of \<^verbatim>\<open>utils/errors.ts\<close>. The
  spec's \<^verbatim>\<open>ApiErrorInfo\<close> gives each error a kind, the message and, for a rate limit, the
  \<^verbatim>\<open>retryAfterSeconds\<close> it was constructed with.
\<close>

fun kind :: "error \<Rightarrow> error_kind option" where
  "kind (AuthenticationError m) = Some Authentication"
| "kind (RateLimitError m r) = Some RateLimit"
| "kind (DigitalOceanApiError m s) = Some Generic"
| "kind e = None"

fun retryAfterSeconds :: "error \<Rightarrow> jsval" where
  "retryAfterSeconds (RateLimitError m r) = r"
| "retryAfterSeconds e = JUndefined"

fun message :: "error \<Rightarrow> jsval" where
  "message (AuthenticationError m) = JStr m"
| "message (RateLimitError m r) = JStr m"
| "message (DigitalOceanApiError m s) = m"
| "message TypeError = JUndefined"
| "message SyntaxError = JUndefined"

section \<open>The request engine\<close>

definition API_BASE_URL :: string where
  "API_BASE_URL = ''https://api.digitalocean.com/v2''"

record DigitalOceanClientImpl =
  credentials :: TenantCredentials
  this_baseUrl :: string

definition new_client :: "TenantCredentials \<Rightarrow> DigitalOceanClientImpl" where
  "new_client creds =
     \<lparr> credentials = creds,
       this_baseUrl = (case baseUrl creds of
                         None \<Rightarrow> API_BASE_URL
                       | Some u \<Rightarrow> if u = [] then API_BASE_URL else u) \<rparr>"

definition getAuthHeaders :: "DigitalOceanClientImpl \<Rightarrow> error + (string \<times> string) list" where
  "getAuthHeaders this =
     (if token (credentials this) = []
      then Inl (AuthenticationError ''No token provided. Include X-DigitalOcean-Token header.'')
      else Inr [(''Authorization'', ''Bearer '' @ token (credentials this)),
                (''Content-Type'', ''application/json'')])"

text \<open>
  The message of a generic failure: \<^verbatim>\<open>errorJson.message || errorJson.id || message\<close>
  inside the \<^verbatim>\<open>try\<close>, whose \<^verbatim>\<open>catch\<close> keeps the default.
\<close>

definition error_message :: "platform \<Rightarrow> Response \<Rightarrow> jsval" where
  "error_message pf response =
     (let errorBody = body response;
          message = JStr (''API error: '' @ show_nat (status response))
      in case JSON_parse pf errorBody of
           None \<Rightarrow> message
         | Some errorJson \<Rightarrow>
             (case get_prop errorJson ''message'' of
                Inl e \<Rightarrow> message
              | Inr m \<Rightarrow>
                  if truthy m then m
                  else (case get_prop errorJson ''id'' of
                          Inl e \<Rightarrow> message
                        | Inr i \<Rightarrow> or_else i message)))"

text \<open>
  One call of \<^verbatim>\<open>request\<close>: the error thrown or the payload returned, and the trace of
  its effects. \<^verbatim>\<open>getAuthHeaders\<close> is called while the argument of \<^verbatim>\<open>fetch\<close> is built, so
  its error comes before the call. The tests on the status follow in the order of the
  source.
\<close>

definition request ::
  "platform \<Rightarrow> DigitalOceanClientImpl \<Rightarrow> string \<Rightarrow> RequestInit \<Rightarrow> (error + jsval) \<times> event list"
where
  "request pf this endpoint options =
     (let url = this_baseUrl this @ endpoint in
      case getAuthHeaders this of
        Inl e \<Rightarrow> (Inl e, [])
      | Inr auth \<Rightarrow>
          let init = options\<lparr> init_headers :=
                       Some (spread auth (case init_headers options of None \<Rightarrow> [] | Some h \<Rightarrow> h)) \<rparr>;
              sent = [Fetch url init]
          in case fetch pf url init of
               None \<Rightarrow> (Inl TypeError, sent)
             | Some response \<Rightarrow>
                 if status response = 429 then
                   (let retryAfter = headers_get (headers response) ''Retry-After''
                    in (Inl (RateLimitError ''Rate limit exceeded''
                               (case retryAfter of
                                  None \<Rightarrow> JNum ''60''
                                | Some s \<Rightarrow> if s \<noteq> [] then parseInt pf s else JNum ''60'')),
                        sent))
                 else if status response = 401 \<or> status response = 403 then
                   (Inl (AuthenticationError ''Authentication failed. Check your API token.''), sent)
                 else if \<not> ok response then
                   (Inl (DigitalOceanApiError (error_message pf response) (status response)),
                    sent @ [ReadText])
                 else if status response = 204 then
                   (Inr JUndefined, sent)
                 else
                   (case headers_get (headers response) ''content-type'' of
                      None \<Rightarrow> (Inr (JStr (body response)), sent @ [ReadText])
                    | Some contentType \<Rightarrow>
                        if str_includes contentType ''application/json'' then
                          (case JSON_parse pf (body response) of
                             None \<Rightarrow> (Inl SyntaxError, sent @ [ReadJson])
                           | Some v \<Rightarrow> (Inr v, sent @ [ReadJson]))
                        else (Inr (JStr (body response)), sent @ [ReadText])))"

section \<open>The pagination normalizer\<close>

record PaginatedResponse =
  items :: jsval
  count :: jsval
  total :: jsval
  hasMore :: bool
  nextPage :: jsval

text \<open>
  \<^verbatim>\<open>new URL(url)\<close> converts its argument to a string first; \<^verbatim>\<open>searchParams.get\<close> gives the
  first value of the name, \<^verbatim>\<open>null\<close> when there is none. The \<^verbatim>\<open>catch\<close> turns a throwing
  conversion or constructor into \<^verbatim>\<open>undefined\<close>.
\<close>

definition extractPageNumber :: "platform \<Rightarrow> jsval \<Rightarrow> jsval" where
  "extractPageNumber pf url =
     (case ToString url of
        Inl e \<Rightarrow> JUndefined
      | Inr u \<Rightarrow>
          (case URL_searchParams pf u of
             None \<Rightarrow> JUndefined
           | Some searchParams \<Rightarrow>
               (case map_of searchParams ''page'' of
                  None \<Rightarrow> JUndefined
                | Some page \<Rightarrow> if page \<noteq> [] then parseInt pf page else JUndefined)))"

text \<open>
  The field name \<open>key\<close> is a literal at every call (\<^verbatim>\<open>droplets\<close>, \<^verbatim>\<open>actions\<close>, ...), so
  \<^verbatim>\<open>response[key]\<close> is a read under a name the client writes out.
\<close>

definition parsePaginatedResponse :: "platform \<Rightarrow> jsval \<Rightarrow> string \<Rightarrow> error + PaginatedResponse" where
  "parsePaginatedResponse pf response key =
     and_then (get_prop response key) (\<lambda>field.
     let items = or_else field (JArr []) in
     and_then (get_prop response ''meta'') (\<lambda>meta.
     and_then (get_prop response ''links'') (\<lambda>links.
     and_then (get_prop items ''length'') (\<lambda>n.
     let next = opt_prop (opt_prop links ''pages'') ''next'' in
     Inr \<lparr> items = items,
           count = n,
           total = opt_prop meta ''total'',
           hasMore = truthy next,
           nextPage = (if truthy next then extractPageNumber pf next else JUndefined) \<rparr>))))"

section \<open>The query-string builder\<close>

text \<open>
  \<^verbatim>\<open>URLSearchParams.set\<close>: the first pair of the name takes the value and the later ones
  go, a new name is appended.
\<close>

fun searchParams_set :: "string \<Rightarrow> string \<Rightarrow> (string \<times> string) list \<Rightarrow> (string \<times> string) list" where
  "searchParams_set k v [] = [(k, v)]"
| "searchParams_set k v (p # ps) =
     (if fst p = k then (k, v) # filter (\<lambda>q. fst q \<noteq> k) ps else p # searchParams_set k v ps)"

text \<open>
  The \<^verbatim>\<open>application/x-www-form-urlencoded\<close> serializer of \<^verbatim>\<open>URLSearchParams.toString\<close>:
  the string is encoded in UTF-8, a space becomes \<^verbatim>\<open>+\<close>, the ASCII letters and digits and
  \<^verbatim>\<open>*-._\<close> stay, every other byte is written \<^verbatim>\<open>%XX\<close> in upper-case hexadecimal.
\<close>

definition hex_byte :: "nat \<Rightarrow> string" where
  "hex_byte n = [CHR ''%'', ''0123456789ABCDEF'' ! (n div 16), ''0123456789ABCDEF'' ! (n mod 16)]"

definition utf8_bytes :: "char \<Rightarrow> nat list" where
  "utf8_bytes c =
     (let n = of_char c :: nat in if n < 128 then [n] else [192 + n div 64, 128 + n mod 64])"

definition urlencode_char :: "char \<Rightarrow> string" where
  "urlencode_char c =
     (if c = CHR '' '' then ''+''
      else if c \<in> set ''*-._0123456789ABCDEFGHIJKLMNOPQRSTUVWXYZabcdefghijklmnopqrstuvwxyz''
      then [c]
      else concat (map hex_byte (utf8_bytes c)))"

definition urlencode :: "string \<Rightarrow> string" where
  "urlencode s = concat (map urlencode_char s)"

definition searchParams_toString :: "(string \<times> string) list \<Rightarrow> string" where
  "searchParams_toString ps = join ''&'' (map (\<lambda>p. urlencode (fst p) @ ''='' @ urlencode (snd p)) ps)"

text \<open>The loop \<^verbatim>\<open>searchParams.set(key, String(value))\<close> over the entries that are left.\<close>

fun set_entries ::
  "(string \<times> jsval) list \<Rightarrow> (string \<times> string) list \<Rightarrow> error + (string \<times> string) list"
where
  "set_entries [] searchParams = Inr searchParams"
| "set_entries (kv # rest) searchParams =
     and_then (ToString (snd kv)) (\<lambda>value.
     set_entries rest (searchParams_set (fst kv) value searchParams))"

text \<open>The parameter object is given by its \<^verbatim>\<open>Object.entries\<close>.\<close>

definition buildQueryString :: "(string \<times> jsval) list \<Rightarrow> error + string" where
  "buildQueryString params =
     (let filtered = filter (\<lambda>kv. snd kv \<noteq> JUndefined \<and> snd kv \<noteq> JNull \<and> snd kv \<noteq> JStr []) params
      in if length filtered = 0 then Inr []
         else and_then (set_entries filtered []) (\<lambda>searchParams.
              Inr (CHR ''?'' # searchParams_toString searchParams)))"

text \<open>
  The reverse reading of an encoded text, byte by byte: \<^verbatim>\<open>+\<close> is a space, \<^verbatim>\<open>%XX\<close> is the
  byte of the two hexadecimal digits, any other character is itself; \<open>None\<close> for an
  escape that is cut short or is not hexadecimal. It is not part of the client; the
  properties of the builder are stated with it.
\<close>

definition hex_val :: "char \<Rightarrow> nat option" where
  "hex_val c =
     map_of (zip ''0123456789ABCDEF'' [0, 1, 2, 3, 4, 5, 6, 7, 8, 9, 10, 11, 12, 13, 14, 15]) c"

fun percent_decode :: "string \<Rightarrow> nat list option" where
  "percent_decode [] = Some []"
| "percent_decode (c # cs) =
     (if c = CHR ''%'' then
        (case cs of
           h # l # rest \<Rightarrow>
             (case (hex_val h, hex_val l, percent_decode rest) of
                (Some a, Some b, Some bs) \<Rightarrow> Some ((16 * a + b) # bs)
              | _ \<Rightarrow> None)
         | _ \<Rightarrow> None)
      else
        (case percent_decode cs of
           None \<Rightarrow> None
         | Some bs \<Rightarrow> Some ((if c = CHR ''+'' then 32 else of_char c) # bs)))"

text \<open>The UTF-8 bytes of a string of code units up to U+00FF.\<close>

definition utf8 :: "string \<Rightarrow> nat list" where
  "utf8 s = concat (map utf8_bytes s)"

section \<open>The response formatter\<close>

text \<open>
  \<^verbatim>\<open>toUpperCase\<close> on one character: the ASCII letters, the Latin-1 letters U+00E0 to
  U+00FE (U+00F7 is the division sign), and the sharp s, which becomes \<^verbatim>\<open>SS\<close>. The upper
  cases of U+00B5 and U+00FF lie above U+00FF, outside the strings of the model, which
  leaves these two as they are.
\<close>

definition toUpperCase_char :: "char \<Rightarrow> string" where
  "toUpperCase_char c =
     (if c = CHR 0xDF then ''SS''
      else case map_of (zip (''abcdefghijklmnopqrstuvwxyz'' @ [CHR 0xE0, CHR 0xE1, CHR 0xE2, CHR 0xE3, CHR 0xE4, CHR 0xE5, CHR 0xE6, CHR 0xE7, CHR 0xE8, CHR 0xE9, CHR 0xEA, CHR 0xEB, CHR 0xEC, CHR 0xED, CHR 0xEE, CHR 0xEF, CHR 0xF0, CHR 0xF1, CHR 0xF2, CHR 0xF3, CHR 0xF4, CHR 0xF5, CHR 0xF6, CHR 0xF8, CHR 0xF9, CHR 0xFA, CHR 0xFB, CHR 0xFC, CHR 0xFD, CHR 0xFE])
                            (''ABCDEFGHIJKLMNOPQRSTUVWXYZ'' @ [CHR 0xC0, CHR 0xC1, CHR 0xC2, CHR 0xC3, CHR 0xC4, CHR 0xC5, CHR 0xC6, CHR 0xC7, CHR 0xC8, CHR 0xC9, CHR 0xCA, CHR 0xCB, CHR 0xCC, CHR 0xCD, CHR 0xCE, CHR 0xCF, CHR 0xD0, CHR 0xD1, CHR 0xD2, CHR 0xD3, CHR 0xD4, CHR 0xD5, CHR 0xD6, CHR 0xD8, CHR 0xD9, CHR 0xDA, CHR 0xDB, CHR 0xDC, CHR 0xDD, CHR 0xDE])) c of
             None \<Rightarrow> [c] | Some d \<Rightarrow> [d])"

definition capitalize :: "string \<Rightarrow> string" where
  "capitalize str = (case str of [] \<Rightarrow> [] | c # cs \<Rightarrow> toUpperCase_char c @ cs)"

fun split_on :: "char \<Rightarrow> string \<Rightarrow> string list" where
  "split_on d [] = [[]]"
| "split_on d (c # cs) =
     (if c = d then [] # split_on d cs
      else case split_on d cs of [] \<Rightarrow> [[c]] | w # ws \<Rightarrow> (c # w) # ws)"

definition formatKey :: "string \<Rightarrow> string" where
  "formatKey key = join '' '' (map capitalize (split_on CHR ''_'' key))"

text \<open>\<^verbatim>\<open>str.replace(/s$/, '')\<close>.\<close>

definition drop_final_s :: "string \<Rightarrow> string" where
  "drop_final_s str = (if str \<noteq> [] \<and> last str = CHR ''s'' then butlast str else str)"

definition newline :: string where
  "newline = [CHR 0x0A]"

text \<open>The template \<^verbatim>\<open>| ${a} | ${b} | ... |\<close> of a table row.\<close>

definition table_row :: "jsval list \<Rightarrow> error + string" where
  "table_row cells =
     and_then (map_err ToString cells) (\<lambda>texts. Inr (''| '' @ join '' | '' texts @ '' |''))"

text \<open>A table is the header, the separator and one row for each item, in order.\<close>

definition table_of :: "string \<Rightarrow> string \<Rightarrow> (jsval \<Rightarrow> error + string) \<Rightarrow> jsval list \<Rightarrow> error + string" where
  "table_of header separator row xs =
     and_then (map_err row xs) (\<lambda>rows. Inr (join newline ([header, separator] @ rows)))"

text \<open>
  \<^verbatim>\<open>v4.find((n) => n.type === 'public')\<close>: the elements are visited in order, and reading
  \<^verbatim>\<open>type\<close> of \<^verbatim>\<open>null\<close> throws.
\<close>

fun find_public :: "jsval list \<Rightarrow> error + jsval" where
  "find_public [] = Inr JUndefined"
| "find_public (n # ns) =
     and_then (get_prop n ''type'') (\<lambda>t. if t = JStr ''public'' then Inr n else find_public ns)"

text \<open>
  \<^verbatim>\<open>droplet.networks?.v4?.find(...)?.ip_address || '-'\<close>. A \<^verbatim>\<open>v4\<close> that is neither
  missing nor an array has no \<^verbatim>\<open>find\<close> method, and the call throws.
\<close>

definition publicIp :: "jsval \<Rightarrow> error + jsval" where
  "publicIp droplet =
     and_then (get_prop droplet ''networks'') (\<lambda>networks.
     let v4 = opt_prop networks ''v4'' in
     if nullish v4 then Inr (JStr ''-'')
     else case v4 of
            JArr ns \<Rightarrow>
              and_then (find_public ns) (\<lambda>n. Inr (or_else (opt_prop n ''ip_address'') (JStr ''-'')))
          | _ \<Rightarrow> Inl TypeError)"

definition formatDropletsTable :: "jsval list \<Rightarrow> error + string" where
  "formatDropletsTable droplets =
     table_of ''| ID | Name | Status | IP | Region | Size |'' ''|---|---|---|---|---|---|''
       (\<lambda>droplet.
          and_then (publicIp droplet) (\<lambda>ip.
          table_row
            [opt_prop droplet ''id'', opt_prop droplet ''name'', opt_prop droplet ''status'', ip,
             or_else (opt_prop (opt_prop droplet ''region'') ''slug'') (JStr ''-''),
             opt_prop droplet ''size_slug'']))
       droplets"

text \<open>\<^verbatim>\<open>volume.droplet_ids?.join(', ') || 'Not attached'\<close>.\<close>

definition attachedTo :: "jsval \<Rightarrow> error + jsval" where
  "attachedTo volume =
     and_then (get_prop volume ''droplet_ids'') (\<lambda>ids.
     if nullish ids then Inr (JStr ''Not attached'')
     else case ids of
            JArr xs \<Rightarrow>
              and_then (array_join '', '' xs) (\<lambda>joined.
              Inr (or_else (JStr joined) (JStr ''Not attached'')))
          | _ \<Rightarrow> Inl TypeError)"

definition formatVolumesTable :: "jsval list \<Rightarrow> error + string" where
  "formatVolumesTable volumes =
     table_of ''| ID | Name | Size (GB) | Region | Attached To |'' ''|---|---|---|---|---|''
       (\<lambda>volume.
          and_then (attachedTo volume) (\<lambda>attached.
          table_row
            [opt_prop volume ''id'', opt_prop volume ''name'', opt_prop volume ''size_gigabytes'',
             or_else (opt_prop (opt_prop volume ''region'') ''slug'') (JStr ''-''),
             attached]))
       volumes"

text \<open>
  In the remaining tables the first property read of a row is a plain one, which throws
  on \<^verbatim>\<open>null\<close>; after it every read of the same item succeeds.
\<close>

definition formatFirewallsTable :: "jsval list \<Rightarrow> error + string" where
  "formatFirewallsTable firewalls =
     table_of ''| ID | Name | Status | Droplets | Inbound Rules | Outbound Rules |''
       ''|---|---|---|---|---|---|''
       (\<lambda>firewall.
          and_then (get_prop firewall ''id'') (\<lambda>id.
          table_row
            [id, opt_prop firewall ''name'', opt_prop firewall ''status'',
             or_else (opt_prop (opt_prop firewall ''droplet_ids'') ''length'') (JNum ''0''),
             or_else (opt_prop (opt_prop firewall ''inbound_rules'') ''length'') (JNum ''0''),
             or_else (opt_prop (opt_prop firewall ''outbound_rules'') ''length'') (JNum ''0'')]))
       firewalls"

definition formatLoadBalancersTable :: "jsval list \<Rightarrow> error + string" where
  "formatLoadBalancersTable loadBalancers =
     table_of ''| ID | Name | IP | Status | Region | Droplets |'' ''|---|---|---|---|---|---|''
       (\<lambda>lb.
          and_then (get_prop lb ''id'') (\<lambda>id.
          table_row
            [id, opt_prop lb ''name'', or_else (opt_prop lb ''ip'') (JStr ''-''),
             opt_prop lb ''status'',
             or_else (opt_prop (opt_prop lb ''region'') ''slug'') (JStr ''-''),
             or_else (opt_prop (opt_prop lb ''droplet_ids'') ''length'') (JNum ''0'')]))
       loadBalancers"

definition formatVPCsTable :: "jsval list \<Rightarrow> error + string" where
  "formatVPCsTable vpcs =
     table_of ''| ID | Name | Region | IP Range | Default |'' ''|---|---|---|---|---|''
       (\<lambda>vpc.
          and_then (get_prop vpc ''id'') (\<lambda>id.
          table_row
            [id, opt_prop vpc ''name'', opt_prop vpc ''region'', opt_prop vpc ''ip_range'',
             (if truthy (opt_prop vpc ''default'') then JStr ''Yes'' else JStr ''No'')]))
       vpcs"

definition formatKubernetesClustersTable :: "jsval list \<Rightarrow> error + string" where
  "formatKubernetesClustersTable clusters =
     table_of ''| ID | Name | Region | Version | Status | Node Pools |'' ''|---|---|---|---|---|---|''
       (\<lambda>cluster.
          and_then (get_prop cluster ''id'') (\<lambda>id.
          table_row
            [id, opt_prop cluster ''name'', opt_prop cluster ''region'',
             opt_prop cluster ''version'',
             or_else (opt_prop (opt_prop cluster ''status'') ''state'') (JStr ''-''),
             or_else (opt_prop (opt_prop cluster ''node_pools'') ''length'') (JNum ''0'')]))
       clusters"

definition formatDatabasesTable :: "jsval list \<Rightarrow> error + string" where
  "formatDatabasesTable databases =
     table_of ''| ID | Name | Engine | Version | Size | Region | Status |''
       ''|---|---|---|---|---|---|---|''
       (\<lambda>db.
          and_then (get_prop db ''id'') (\<lambda>id.
          table_row
            [id, opt_prop db ''name'', opt_prop db ''engine'', opt_prop db ''version'',
             opt_prop db ''size'', opt_prop db ''region'', opt_prop db ''status'']))
       databases"

definition formatAppsTable :: "jsval list \<Rightarrow> error + string" where
  "formatAppsTable apps =
     table_of ''| ID | Name | Region | Tier | Live URL |'' ''|---|---|---|---|---|''
       (\<lambda>app.
          and_then (get_prop app ''id'') (\<lambda>id.
          table_row
            [id, or_else (opt_prop (opt_prop app ''spec'') ''name'') (JStr ''-''),
             or_else (opt_prop (opt_prop app ''region'') ''slug'') (JStr ''-''),
             or_else (opt_prop app ''tier_slug'') (JStr ''-''),
             or_else (opt_prop app ''live_url'') (JStr ''-'')]))
       apps"

text \<open>
  \<^verbatim>\<open>Object.keys\<close>: a \<^verbatim>\<open>TypeError\<close> on \<^verbatim>\<open>undefined\<close> and \<^verbatim>\<open>null\<close>, the names of the own
  properties of an object, the indices of an array or a string, nothing for a number or a
  boolean.
\<close>

fun object_keys :: "jsval \<Rightarrow> error + string list" where
  "object_keys JUndefined = Inl TypeError"
| "object_keys JNull = Inl TypeError"
| "object_keys (JObj kvs) = Inr (map fst kvs)"
| "object_keys (JArr xs) = Inr (map show_nat [0..<length xs])"
| "object_keys (JStr s) = Inr (map show_nat [0..<length s])"
| "object_keys v = Inr []"

text \<open>
  The generic table reads each item under the names that \<^verbatim>\<open>Object.keys\<close> gave for the
  first one, \<^verbatim>\<open>record[k]\<close>. These names come from the data, and an item that has no own
  property of the name may inherit a member of it from the built-in prototypes
  (\<^verbatim>\<open>constructor\<close>, \<^verbatim>\<open>toString\<close>, ...). What is inherited depends on the engine, and is a
  parameter: \<open>inherited v k\<close> is the member that \<open>v\<close> inherits under \<open>k\<close>, \<open>None\<close> when
  there is none. A member is a value or a function, of which the formatter asks the type
  and the text that \<^verbatim>\<open>String\<close> gives.
\<close>

datatype member = Value jsval | Function string

fun has_own :: "jsval \<Rightarrow> string \<Rightarrow> bool" where
  "has_own (JObj kvs) k = (map_of kvs k \<noteq> None)"
| "has_own (JArr xs) k =
     (k = ''length'' \<or> (case index_of_key k of None \<Rightarrow> False | Some i \<Rightarrow> i < length xs))"
| "has_own (JStr s) k =
     (k = ''length'' \<or> (case index_of_key k of None \<Rightarrow> False | Some i \<Rightarrow> i < length s))"
| "has_own v k = False"

definition member_of :: "(jsval \<Rightarrow> string \<Rightarrow> member option) \<Rightarrow> jsval \<Rightarrow> string \<Rightarrow> member" where
  "member_of inherited v k =
     (if has_own v k then Value (opt_prop v k)
      else case inherited v k of None \<Rightarrow> Value JUndefined | Some m \<Rightarrow> m)"

definition read_member ::
  "(jsval \<Rightarrow> string \<Rightarrow> member option) \<Rightarrow> jsval \<Rightarrow> string \<Rightarrow> error + member"
where
  "read_member inherited v k =
     (if nullish v then Inl TypeError else Inr (member_of inherited v k))"

text \<open>
  One cell of the generic table. The type of a function is \<^verbatim>\<open>function\<close>, not
  \<^verbatim>\<open>object\<close>, so it is printed by \<^verbatim>\<open>String\<close>.
\<close>

fun cell :: "member \<Rightarrow> error + string" where
  "cell (Value val) =
     (if val = JNull \<or> val = JUndefined then Inr ''-''
      else if typeof_object val then Inr ''[object]''
      else and_then (ToString val) (\<lambda>s. Inr (take 50 s)))"
| "cell (Function source) = Inr (take 50 source)"

text \<open>
  The cell as the specification words it, to be compared with \<open>cell\<close>: a dash for
  \<^verbatim>\<open>null\<close> and \<^verbatim>\<open>undefined\<close>, the placeholder for a nested object or array, and the first
  50 characters of the stringified value otherwise.
\<close>

fun cell_as_specified :: "member \<Rightarrow> string" where
  "cell_as_specified (Value JNull) = ''-''"
| "cell_as_specified (Value JUndefined) = ''-''"
| "cell_as_specified (Value (JObj kvs)) = ''[object]''"
| "cell_as_specified (Value (JArr xs)) = ''[object]''"
| "cell_as_specified (Value (JBool b)) = take 50 (if b then ''true'' else ''false'')"
| "cell_as_specified (Value JNaN) = take 50 ''NaN''"
| "cell_as_specified (Value (JNum t)) = take 50 t"
| "cell_as_specified (Value (JStr s)) = take 50 s"
| "cell_as_specified (Function source) = take 50 source"

definition formatGenericTable ::
  "(jsval \<Rightarrow> string \<Rightarrow> member option) \<Rightarrow> jsval list \<Rightarrow> error + string"
where
  "formatGenericTable inherited item_list =
     (case item_list of
        [] \<Rightarrow> Inr ''_No items_''
      | first # rest \<Rightarrow>
          and_then (object_keys first) (\<lambda>all_keys.
          let keys = take 6 all_keys in
          table_of (''| '' @ join '' | '' keys @ '' |'')
            (''|'' @ join ''|'' (map (\<lambda>k. ''---'') keys) @ ''|'')
            (\<lambda>item.
               and_then (map_err (\<lambda>k. and_then (read_member inherited item k) cell) keys)
                 (\<lambda>values. Inr (''| '' @ join '' | '' values @ '' |'')))
            item_list))"

definition formatArrayAsMarkdown ::
  "(jsval \<Rightarrow> string \<Rightarrow> member option) \<Rightarrow> jsval list \<Rightarrow> string \<Rightarrow> error + string"
where
  "formatArrayAsMarkdown inherited data entityType = formatGenericTable inherited data"

text \<open>The \<^verbatim>\<open>switch\<close> on the resource tag.\<close>

definition items_table ::
  "(jsval \<Rightarrow> string \<Rightarrow> member option) \<Rightarrow> string \<Rightarrow> jsval list \<Rightarrow> error + string"
where
  "items_table inherited entityType xs =
     (if entityType = ''droplets'' then formatDropletsTable xs
      else if entityType = ''volumes'' then formatVolumesTable xs
      else if entityType = ''firewalls'' then formatFirewallsTable xs
      else if entityType = ''load_balancers'' then formatLoadBalancersTable xs
      else if entityType = ''vpcs'' then formatVPCsTable xs
      else if entityType = ''kubernetes_clusters'' then formatKubernetesClustersTable xs
      else if entityType = ''databases'' then formatDatabasesTable xs
      else if entityType = ''apps'' then formatAppsTable xs
      else formatGenericTable inherited xs)"

text \<open>
  The lines before the table: the heading, the summary of the counts and the notice that
  more is available. The counts are printed by template literals, which throw on an
  object that has an own \<^verbatim>\<open>toString\<close>.
\<close>

definition page_heading :: "jsval \<Rightarrow> jsval \<Rightarrow> jsval \<Rightarrow> jsval \<Rightarrow> string \<Rightarrow> error + string list" where
  "page_heading total_v count_v hasMore_v nextPage_v entityType =
     and_then
       (if total_v \<noteq> JUndefined
        then and_then (ToString total_v) (\<lambda>t.
             and_then (ToString count_v) (\<lambda>c.
             Inr (''**Total:** '' @ t @ '' | **Showing:** '' @ c)))
        else and_then (ToString count_v) (\<lambda>c. Inr (''**Showing:** '' @ c)))
       (\<lambda>summary.
     and_then
       (if truthy hasMore_v
        then and_then (ToString nextPage_v) (\<lambda>n.
             Inr [''**More available:** Yes (next page: '' @ n @ '')''])
        else Inr [])
       (\<lambda>more.
     Inr ([''## '' @ capitalize entityType, [], summary] @ more @ [[]])))"

text \<open>
  \<^verbatim>\<open>formatPaginatedAsMarkdown\<close> is private to the module and called under the guard
  \<^verbatim>\<open>isPaginatedResponse\<close> only, so \<^verbatim>\<open>data.items\<close> is an array; the model answers any other
  argument with a \<^verbatim>\<open>TypeError\<close>.
\<close>

definition formatPaginatedAsMarkdown ::
  "(jsval \<Rightarrow> string \<Rightarrow> member option) \<Rightarrow> jsval \<Rightarrow> string \<Rightarrow> error + string"
where
  "formatPaginatedAsMarkdown inherited data entityType =
     and_then (get_prop data ''total'') (\<lambda>total.
     and_then (get_prop data ''count'') (\<lambda>count.
     and_then (get_prop data ''hasMore'') (\<lambda>hasMore.
     and_then (get_prop data ''nextPage'') (\<lambda>nextPage.
     and_then (get_prop data ''items'') (\<lambda>items.
     and_then (page_heading total count hasMore nextPage entityType) (\<lambda>lines.
     case items of
       JArr xs \<Rightarrow>
         if length xs = 0 then Inr (join newline (lines @ [''_No items found._'']))
         else and_then (items_table inherited entityType xs) (\<lambda>t.
              Inr (join newline (lines @ [t])))
     | _ \<Rightarrow> Inl TypeError))))))"

text \<open>
  One entry of a single object: nothing for \<^verbatim>\<open>null\<close> and \<^verbatim>\<open>undefined\<close>, a fenced block
  of \<^verbatim>\<open>JSON.stringify(value, null, 2)\<close> for a nested object or array, one line otherwise.
  \<^verbatim>\<open>JSON.stringify\<close> is a parameter; \<open>None\<close> is its result \<^verbatim>\<open>undefined\<close>, which
  \<^verbatim>\<open>join\<close> writes as the empty string.
\<close>

definition object_entry_lines ::
  "(jsval \<Rightarrow> string option) \<Rightarrow> string \<times> jsval \<Rightarrow> error + string list"
where
  "object_entry_lines stringify kv =
     (let key = fst kv; value = snd kv in
      if value = JNull \<or> value = JUndefined then Inr []
      else if typeof_object value then
        Inr [''**'' @ formatKey key @ '':**'', ''```json'',
             (case stringify value of None \<Rightarrow> [] | Some s \<Rightarrow> s), ''```'']
      else and_then (ToString value) (\<lambda>s. Inr [''**'' @ formatKey key @ '':** '' @ s]))"

definition formatObjectAsMarkdown ::
  "(jsval \<Rightarrow> string option) \<Rightarrow> (string \<times> jsval) list \<Rightarrow> string \<Rightarrow> error + string"
where
  "formatObjectAsMarkdown stringify data entityType =
     and_then (map_err (object_entry_lines stringify) data) (\<lambda>entries.
     Inr (join newline ([''## '' @ capitalize (drop_final_s entityType), []] @ concat entries)))"

text \<open>
  \<^verbatim>\<open>typeof data === 'object' && data !== null && 'items' in data &&
  Array.isArray(data.items)\<close>. An array has no property \<^verbatim>\<open>items\<close>.
\<close>

fun isPaginatedResponse :: "jsval \<Rightarrow> bool" where
  "isPaginatedResponse (JObj kvs) =
     (case map_of kvs ''items'' of Some (JArr xs) \<Rightarrow> True | _ \<Rightarrow> False)"
| "isPaginatedResponse v = False"

definition formatAsMarkdown ::
  "(jsval \<Rightarrow> string option) \<Rightarrow> (jsval \<Rightarrow> string \<Rightarrow> member option) \<Rightarrow> jsval \<Rightarrow> string
     \<Rightarrow> error + string"
where
  "formatAsMarkdown stringify inherited data entityType =
     (if isPaginatedResponse data then formatPaginatedAsMarkdown inherited data entityType
      else case data of
             JArr xs \<Rightarrow> formatArrayAsMarkdown inherited xs entityType
           | JObj kvs \<Rightarrow> formatObjectAsMarkdown stringify kvs entityType
           | _ \<Rightarrow> ToString data)"

datatype ResponseFormat = Json | Markdown

record content_item =
  item_type :: string
  item_text :: "string option"

record ToolResponse =
  content :: "content_item list"
  isError :: "bool option"


text \<open>The characters that the serializer can write.\<close>

definition url_safe :: "char set" where
  "url_safe = set ''%+*-._0123456789ABCDEFGHIJKLMNOPQRSTUVWXYZabcdefghijklmnopqrstuvwxyz''"

section \<open>Sample inputs\<close>

definition no_options :: RequestInit where
  "no_options = \<lparr> init_method = None, init_headers = None, init_body = None \<rparr>"

definition example_client :: DigitalOceanClientImpl where
  "example_client = new_client \<lparr> token = ''dop_v1_example'', baseUrl = None \<rparr>"

definition anonymous_client :: DigitalOceanClientImpl where
  "anonymous_client = new_client \<lparr> token = [], baseUrl = None \<rparr>"

text \<open>
  A platform whose \<^verbatim>\<open>fetch\<close> answers every call with the response \<open>r\<close>, and whose
  \<^verbatim>\<open>JSON.parse\<close> and URL parser are given by the table of the texts that occur. No text
  of the samples holds an integer above \<open>2^53\<close>, so its \<open>Number_text\<close> is never asked.
\<close>

definition responding ::
  "Response \<Rightarrow> (string \<times> jsval) list \<Rightarrow> (string \<times> (string \<times> string) list) list \<Rightarrow> platform"
where
  "responding r decoded urls =
     \<lparr> fetch = (\<lambda>u i. Some r), JSON_parse = map_of decoded, URL_searchParams = map_of urls,
       Number_text = show_nat \<rparr>"

definition rate_limited_http_date :: Response where
  "rate_limited_http_date =
     \<lparr> status = 429, headers = [(''Retry-After'', ''Wed, 21 Oct 2015 07:28:00 GMT'')], body = [] \<rparr>"

definition rate_limited_120 :: Response where
  "rate_limited_120 = \<lparr> status = 429, headers = [(''retry-after'', ''120'')], body = [] \<rparr>"

definition forbidden_response :: Response where
  "forbidden_response =
     \<lparr> status = 403, headers = [(''content-type'', ''application/json'')],
       body = ''{\"id\":\"forbidden\",\"message\":\"You are not authorized\"}'' \<rparr>"

definition no_content_response :: Response where
  "no_content_response =
     \<lparr> status = 204, headers = [(''content-type'', ''application/json; charset=utf-8'')],
       body = [] \<rparr>"

definition not_found_empty_message :: Response where
  "not_found_empty_message =
     \<lparr> status = 404, headers = [(''content-type'', ''application/json'')],
       body = ''{\"message\":\"\",\"id\":\"not_found\"}'' \<rparr>"

definition not_found_decoded :: "(string \<times> jsval) list" where
  "not_found_decoded =
     [(''{\"message\":\"\",\"id\":\"not_found\"}'',
       JObj [(''message'', JStr []), (''id'', JStr ''not_found'')])]"

definition internal_error :: Response where
  "internal_error =
     \<lparr> status = 500, headers = [(''content-type'', ''application/json'')],
       body = ''{\"message\":\"internal error\"}'' \<rparr>"

definition internal_error_decoded :: "(string \<times> jsval) list" where
  "internal_error_decoded =
     [(''{\"message\":\"internal error\"}'', JObj [(''message'', JStr ''internal error'')])]"

definition three_droplets :: "jsval list" where
  "three_droplets = [JObj [(''id'', JNum ''1'')], JObj [(''id'', JNum ''2'')], JObj [(''id'', JNum ''3'')]]"

definition page_of_droplets :: "(string \<times> jsval) list" where
  "page_of_droplets =
     [(''droplets'', JArr three_droplets),
      (''links'', JObj [(''pages'', JObj
         [(''next'', JStr ''https://api.digitalocean.com/v2/droplets?page=3&per_page=20'')])]),
      (''meta'', JObj [(''total'', JNum ''50'')])]"

definition page_with_bad_cursor :: "(string \<times> jsval) list" where
  "page_with_bad_cursor =
     [(''droplets'', JArr []),
      (''links'', JObj [(''pages'', JObj
         [(''next'', JStr ''https://api.digitalocean.com/v2/droplets?page=abc'')])])]"

text \<open>The query pairs of the two cursor URLs above, as the URL parser gives them.\<close>

definition known_urls :: "(string \<times> (string \<times> string) list) list" where
  "known_urls =
     [(''https://api.digitalocean.com/v2/droplets?page=3&per_page=20'',
         [(''page'', ''3''), (''per_page'', ''20'')]),
      (''https://api.digitalocean.com/v2/droplets?page=abc'', [(''page'', ''abc'')])]"

definition url_platform :: platform where
  "url_platform = responding \<lparr> status = 200, headers = [], body = [] \<rparr> [] known_urls"

text \<open>
  Paging parameters with filters that are undefined or empty, a name that holds both
  separators and a slash, a tag with a space, a city with a letter above U+007F, and the
  page \<^verbatim>\<open>1e21\<close>.
\<close>

definition list_params :: "(string \<times> jsval) list" where
  "list_params =
     [(''per_page'', JNum ''20''), (''page'', JNum ''1e+21''), (''status'', JUndefined),
      (''region'', JStr []), (''name'', JStr ''a&b=c/d''), (''tag_name'', JStr ''web server''),
      (''city'', JStr [CHR ''O'', CHR ''r'', CHR ''l'', CHR 0xE9, CHR ''a'', CHR ''n'', CHR ''s''])]"

definition blank_params :: "(string \<times> jsval) list" where
  "blank_params = [(''name'', JUndefined), (''region'', JStr []), (''tag_name'', JNull)]"

text \<open>A map that is not flat: the value has an own property \<^verbatim>\<open>toString\<close>.\<close>

definition odd_params :: "(string \<times> jsval) list" where
  "odd_params = [(''filter'', JObj [(''toString'', JNum ''1'')])]"



text \<open>
  Two items under a tag without a table of its own: the first has seven fields, a note of
  61 characters and a fractional price among them; the second has only the first.
\<close>

definition wide_items :: "(string \<times> jsval) list" where
  "wide_items =
     [(''items'',
         JArr [JObj [(''name'', JStr ''example.com''), (''price'', JNum ''0.00744''),
                     (''zone_file'', JNull), (''tags'', JArr []),
                     (''constructor'', JObj [(''id'', JNum ''7'')]),
                     (''note'', JStr ''0123456789012345678901234567890123456789012345678901234567890''),
                     (''seventh'', JBool True)],
               JObj [(''name'', JStr ''example.org'')]]),
      (''count'', JNum ''2''), (''total'', JUndefined), (''hasMore'', JBool False),
      (''nextPage'', JUndefined)]"

text \<open>A page whose second item is \<^verbatim>\<open>null\<close>.\<close>

definition page_with_null_item :: "(string \<times> jsval) list" where
  "page_with_null_item =
     [(''items'', JArr [JObj [(''name'', JStr ''example.com'')], JNull]),
      (''count'', JNum ''2''), (''total'', JUndefined), (''hasMore'', JBool False),
      (''nextPage'', JUndefined)]"

definition no_stringify :: "jsval \<Rightarrow> string option" where
  "no_stringify v = None"

text \<open>
  What an object inherits in the samples: its \<^verbatim>\<open>constructor\<close>, a function, with the text
  that \<^verbatim>\<open>String\<close> gives for it.
\<close>

definition sample_inherited :: "jsval \<Rightarrow> string \<Rightarrow> member option" where
  "sample_inherited v k =
     (case v of
        JObj kvs \<Rightarrow>
          if k = ''constructor'' then Some (Function ''function Object() { [native code] }'')
          else None
      | _ \<Rightarrow> None)"

section \<open>Properties of the request engine\<close>

lemma token_example_client: "token (credentials example_client) \<noteq> []"
  by (simp add: example_client_def new_client_def)

lemma fetch_responding: "fetch (responding r decoded urls) u init = Some r"
  by (simp add: responding_def)

text \<open>
  C4. A request issued with an empty credential token fails with the authentication
  error of \<^verbatim>\<open>getAuthHeaders\<close>, and the trace of effects is empty: \<^verbatim>\<open>fetch\<close> is never
  called, whatever the platform, the endpoint and the options.
\<close>

theorem request_empty_token:
  assumes "token (credentials this) = []"
  shows "request pf this endpoint options =
           (Inl (AuthenticationError ''No token provided. Include X-DigitalOcean-Token header.''), [])
       \<and> kind (AuthenticationError ''No token provided. Include X-DigitalOcean-Token header.'')
           = Some Authentication"
  using assms by (simp add: request_def getAuthHeaders_def)

text \<open>The client built from credentials without a token, on a platform that would answer 200.\<close>

theorem request_empty_token_witness:
  "token (credentials anonymous_client) = []
 \<and> request (responding \<lparr> status = 200, headers = [], body = [] \<rparr> [] []) anonymous_client
      ''/account'' no_options
    = (Inl (AuthenticationError ''No token provided. Include X-DigitalOcean-Token header.''), [])"
proof -
  have h: "token (credentials anonymous_client) = []"
    by (simp add: anonymous_client_def new_client_def)
  show ?thesis
    using h request_empty_token [OF h] by simp
qed

subsection \<open>Status 429\<close>

text \<open>
  With a token, and a platform that answers the call with \<open>response\<close>, a status 429 always
  gives a rate-limit error: 60 seconds when \<^verbatim>\<open>Retry-After\<close> is missing or empty, and
  whatever \<^verbatim>\<open>parseInt\<close> makes of the header otherwise.
\<close>

lemma request_429:
  assumes "token (credentials this) \<noteq> []"
    and "\<And>init. fetch pf (this_baseUrl this @ endpoint) init = Some response"
    and "status response = 429"
  shows "fst (request pf this endpoint options) =
           Inl (RateLimitError ''Rate limit exceeded''
                  (case headers_get (headers response) ''Retry-After'' of
                     None \<Rightarrow> JNum ''60''
                   | Some s \<Rightarrow> if s \<noteq> [] then parseInt pf s else JNum ''60''))"
  using assms by (simp add: request_def getAuthHeaders_def Let_def)

lemma takeWhile_all: "list_all P xs \<Longrightarrow> takeWhile P xs = xs"
  by (induction xs) auto

text \<open>
  A header made of decimal digits that write an integer from 1 to \<open>2^53\<close> is read as that
  number, whose text is the numeral without leading zeros.
\<close>

lemma parseInt_digits:
  assumes "ds \<noteq> []" and "list_all is_digit ds"
    and "0 < digits_val ds" and "digits_val ds \<le> 9007199254740992"
  shows "parseInt pf ds = JNum (show_nat (digits_val ds))"
proof -
  obtain d rest where ds: "ds = d # rest"
    using assms(1) by (cases ds) auto
  have d: "is_digit d"
    using assms(2) ds by simp
  then have nw: "\<not> is_white_space d" and ns: "d \<noteq> CHR ''-''" "d \<noteq> CHR ''+''"
    by auto
  have "dropWhile is_white_space ds = ds"
    using nw ds by simp
  moreover have "takeWhile is_digit ds = ds"
    using assms(2) by (rule takeWhile_all)
  ultimately show ?thesis
    using ns ds assms(1) assms(3) assms(4)
    by (simp add: parseInt_def Let_def del: is_digit.simps is_white_space.simps)
qed

text \<open>A header that starts with anything but white space, a sign or a digit is \<^verbatim>\<open>NaN\<close>.\<close>

lemma parseInt_no_digit:
  assumes "s = c # rest"
    and "\<not> is_white_space c" and "c \<noteq> CHR ''-''" and "c \<noteq> CHR ''+''" and "\<not> is_digit c"
  shows "parseInt pf s = JNaN"
  using assms by (simp add: parseInt_def Let_def del: is_digit.simps is_white_space.simps)

lemma request_429_retry_after_120:
  "fst (request (responding rate_limited_120 [] []) example_client ''/droplets'' no_options)
     = Inl (RateLimitError ''Rate limit exceeded'' (JNum ''120''))"
  by (simp add: request_def getAuthHeaders_def Let_def responding_def example_client_def
      new_client_def rate_limited_120_def headers_get_def toLowerCase_ascii_def parseInt_def
      digits_val_def)

text \<open>
  C1. The claim gives 60 seconds to a \<^verbatim>\<open>Retry-After\<close> header that is present but not
  numeric. The header may carry an HTTP date; the client hands it to \<^verbatim>\<open>parseInt\<close> without
  testing the result, and the error is constructed with \<^verbatim>\<open>NaN\<close> seconds, not with 60.
\<close>

theorem request_429_unparsed_retry_after:
  "fst (request (responding rate_limited_http_date [] []) example_client ''/droplets'' no_options)
     = Inl (RateLimitError ''Rate limit exceeded'' JNaN)
 \<and> kind (RateLimitError ''Rate limit exceeded'' JNaN) = Some RateLimit
 \<and> retryAfterSeconds (RateLimitError ''Rate limit exceeded'' JNaN) \<noteq> JNum ''60''"
  by (simp add: request_def getAuthHeaders_def Let_def responding_def example_client_def
      new_client_def rate_limited_http_date_def headers_get_def toLowerCase_ascii_def parseInt_def)

subsection \<open>Status 401 and 403\<close>

text \<open>
  C6. With a token, and a platform that answers the call with \<open>response\<close>, a status 401 or
  403 gives the authentication error with its fixed message. The response is arbitrary
  otherwise, so neither its body nor its headers matter, and the trace shows that the body
  is not read: the test comes before the one on \<^verbatim>\<open>response.ok\<close>, which reads it. The test
  on 429 comes first and decides another status (lemma \<open>request_429\<close>).
\<close>

theorem request_401_403:
  assumes "token (credentials this) \<noteq> []"
    and "\<And>init. fetch pf (this_baseUrl this @ endpoint) init = Some response"
    and "status response = 401 \<or> status response = 403"
  shows "fst (request pf this endpoint options)
           = Inl (AuthenticationError ''Authentication failed. Check your API token.'')
       \<and> kind (AuthenticationError ''Authentication failed. Check your API token.'')
           = Some Authentication
       \<and> ReadText \<notin> set (snd (request pf this endpoint options))
       \<and> ReadJson \<notin> set (snd (request pf this endpoint options))"
  using assms by (auto simp add: request_def getAuthHeaders_def Let_def)

text \<open>A 403 whose body carries a message of its own.\<close>

theorem request_401_403_witness:
  "token (credentials example_client) \<noteq> []
 \<and> (status forbidden_response = 401 \<or> status forbidden_response = 403)
 \<and> fst (request (responding forbidden_response [] []) example_client ''/droplets'' no_options)
      = Inl (AuthenticationError ''Authentication failed. Check your API token.'')"
proof -
  have s: "status forbidden_response = 401 \<or> status forbidden_response = 403"
    by (simp add: forbidden_response_def)
  show ?thesis
    using request_401_403 [OF token_example_client fetch_responding s] token_example_client s
    by simp
qed

subsection \<open>Other failures\<close>

lemma index_of_key_message [simp]: "index_of_key ''message'' = None"
  by (simp add: index_of_key_def)

lemma index_of_key_id [simp]: "index_of_key ''id'' = None"
  by (simp add: index_of_key_def)

text \<open>
  The \<^verbatim>\<open>try\<close> block in one expression: a body that decodes to \<^verbatim>\<open>null\<close> throws inside
  it and keeps the default, as a body without the two fields does.
\<close>

lemma error_message_eq:
  "error_message pf response =
     (case JSON_parse pf (body response) of
        None \<Rightarrow> JStr (''API error: '' @ show_nat (status response))
      | Some errorJson \<Rightarrow>
          or_else (opt_prop errorJson ''message'')
            (or_else (opt_prop errorJson ''id'')
               (JStr (''API error: '' @ show_nat (status response)))))"
proof (cases "JSON_parse pf (body response)")
  case None
  then show ?thesis by (simp add: error_message_def)
next
  case (Some errorJson)
  then show ?thesis
    by (cases errorJson) (simp_all add: error_message_def opt_prop_def or_else_def Let_def)
qed

lemma request_failure:
  assumes "token (credentials this) \<noteq> []"
    and "\<And>init. fetch pf (this_baseUrl this @ endpoint) init = Some response"
    and "\<not> ok response" and "status response \<noteq> 429"
    and "status response \<noteq> 401" and "status response \<noteq> 403"
  shows "fst (request pf this endpoint options) =
           Inl (DigitalOceanApiError (error_message pf response) (status response))"
  using assms by (simp add: request_def getAuthHeaders_def Let_def)

text \<open>
  C8, as amended. With a token, and a platform that answers the call with \<open>response\<close>, a
  status outside 200 to 299 other than 401, 403 and 429 gives a generic error. Its message
  is the default \<^verbatim>\<open>API error: <status>\<close> when the body is not JSON; otherwise the value of
  the body's \<^verbatim>\<open>message\<close> field when that value is truthy, else the value of its \<^verbatim>\<open>id\<close>
  field when that value is truthy, else the default. (\<open>opt_prop\<close> is \<^verbatim>\<open>undefined\<close> for a
  missing field and for a body that is not an object.)
\<close>

theorem request_generic_error:
  assumes "token (credentials this) \<noteq> []"
    and "\<And>init. fetch pf (this_baseUrl this @ endpoint) init = Some response"
    and "\<not> ok response" and "status response \<notin> {401, 403, 429}"
  shows "\<exists>e. fst (request pf this endpoint options) = Inl e
           \<and> kind e = Some Generic
           \<and> (JSON_parse pf (body response) = None \<longrightarrow>
                message e = JStr (''API error: '' @ show_nat (status response)))
           \<and> (\<forall>errorJson. JSON_parse pf (body response) = Some errorJson \<longrightarrow>
                message e =
                  (if truthy (opt_prop errorJson ''message'') then opt_prop errorJson ''message''
                   else if truthy (opt_prop errorJson ''id'') then opt_prop errorJson ''id''
                   else JStr (''API error: '' @ show_nat (status response))))"
proof -
  have "fst (request pf this endpoint options) =
           Inl (DigitalOceanApiError (error_message pf response) (status response))"
    using assms by (intro request_failure) auto
  then show ?thesis
    by (auto simp add: error_message_eq or_else_def)
qed

text \<open>A status 500 with the body \<^verbatim>\<open>{"message":"internal error"}\<close>.\<close>

theorem request_generic_error_witness:
  "token (credentials example_client) \<noteq> []
 \<and> \<not> ok internal_error \<and> status internal_error \<notin> {401, 403, 429}
 \<and> (\<exists>e. fst (request (responding internal_error internal_error_decoded []) example_client
                 ''/droplets'' no_options) = Inl e
        \<and> kind e = Some Generic \<and> message e = JStr ''internal error'')"
proof -
  have o: "\<not> ok internal_error"
    by (simp add: ok_def internal_error_def)
  have s: "status internal_error \<notin> {401, 403, 429}"
    by (simp add: internal_error_def)
  have p: "JSON_parse (responding internal_error internal_error_decoded []) (body internal_error)
             = Some (JObj [(''message'', JStr ''internal error'')])"
    by (simp add: responding_def internal_error_def internal_error_decoded_def)
  obtain e where e: "fst (request (responding internal_error internal_error_decoded [])
                            example_client ''/droplets'' no_options) = Inl e"
      and k: "kind e = Some Generic"
      and m: "\<forall>errorJson. JSON_parse (responding internal_error internal_error_decoded [])
                              (body internal_error) = Some errorJson \<longrightarrow>
                message e =
                  (if truthy (opt_prop errorJson ''message'') then opt_prop errorJson ''message''
                   else if truthy (opt_prop errorJson ''id'') then opt_prop errorJson ''id''
                   else JStr (''API error: '' @ show_nat (status internal_error)))"
    using request_generic_error [OF token_example_client fetch_responding o s] by blast
  have "message e = JStr ''internal error''"
    using m p by (simp add: opt_prop_def)
  then show ?thesis
    using e k o s token_example_client by blast
qed

text \<open>
  C8 as stated fails where the \<^verbatim>\<open>message\<close> field is present but empty: the body
  \<^verbatim>\<open>{"message":"","id":"not_found"}\<close> has the field, and the error takes its message from
  \<^verbatim>\<open>id\<close>.
\<close>

theorem request_empty_message_counterexample:
  "JSON_parse (responding not_found_empty_message not_found_decoded []) (body not_found_empty_message)
     = Some (JObj [(''message'', JStr []), (''id'', JStr ''not_found'')])
 \<and> fst (request (responding not_found_empty_message not_found_decoded []) example_client
           ''/droplets/1'' no_options)
     = Inl (DigitalOceanApiError (JStr ''not_found'') 404)
 \<and> message (DigitalOceanApiError (JStr ''not_found'') 404) \<noteq> JStr []"
  by (simp add: request_def getAuthHeaders_def Let_def responding_def example_client_def
      new_client_def not_found_empty_message_def not_found_decoded_def ok_def error_message_def
      or_else_def)

subsection \<open>Status 204\<close>

text \<open>
  C7. With a token, and a platform that answers the call with \<open>response\<close>, a status 204
  gives the payload \<^verbatim>\<open>undefined\<close>, and the trace holds neither a \<^verbatim>\<open>response.text()\<close> nor a
  \<^verbatim>\<open>response.json()\<close>. The headers of the response are arbitrary, its content type among
  them.
\<close>

theorem request_204:
  assumes "token (credentials this) \<noteq> []"
    and "\<And>init. fetch pf (this_baseUrl this @ endpoint) init = Some response"
    and "status response = 204"
  shows "fst (request pf this endpoint options) = Inr JUndefined
       \<and> ReadText \<notin> set (snd (request pf this endpoint options))
       \<and> ReadJson \<notin> set (snd (request pf this endpoint options))"
  using assms by (simp add: request_def getAuthHeaders_def Let_def ok_def)

text \<open>A 204 that declares a JSON body and has none.\<close>

theorem request_204_witness:
  "token (credentials example_client) \<noteq> [] \<and> status no_content_response = 204
 \<and> fst (request (responding no_content_response [] []) example_client ''/droplets/1'' no_options)
      = Inr JUndefined"
proof -
  have s: "status no_content_response = 204"
    by (simp add: no_content_response_def)
  show ?thesis
    using request_204 [OF token_example_client fetch_responding s] token_example_client s
    by simp
qed

section \<open>Properties of the pagination normalizer\<close>

lemma index_of_key_length [simp]: "index_of_key ''length'' = None"
  by (simp add: index_of_key_def)

lemma index_of_key_total [simp]: "index_of_key ''total'' = None"
  by (simp add: index_of_key_def)

lemma index_of_key_pages [simp]: "index_of_key ''pages'' = None"
  by (simp add: index_of_key_def)

lemma index_of_key_next [simp]: "index_of_key ''next'' = None"
  by (simp add: index_of_key_def)

lemma get_prop_length_or_else:
  "get_prop (or_else v (JArr [])) ''length'' = Inr (opt_prop (or_else v (JArr [])) ''length'')"
  by (cases v) (simp_all add: or_else_def opt_prop_def)

text \<open>On an object the normalizer never throws, and each field of the result is: \<close>

lemma parsePaginatedResponse_object:
  "parsePaginatedResponse pf (JObj kvs) key =
     Inr \<lparr> items = or_else (own kvs key) (JArr []),
           count = opt_prop (or_else (own kvs key) (JArr [])) ''length'',
           total = opt_prop (own kvs ''meta'') ''total'',
           hasMore = truthy (opt_prop (opt_prop (own kvs ''links'') ''pages'') ''next''),
           nextPage = (if truthy (opt_prop (opt_prop (own kvs ''links'') ''pages'') ''next'')
                       then extractPageNumber pf (opt_prop (opt_prop (own kvs ''links'') ''pages'') ''next'')
                       else JUndefined) \<rparr>"
  by (simp add: parsePaginatedResponse_def and_then_def Let_def own_def get_prop_length_or_else)

text \<open>
  C3. For every decoded response object and field name the normalizer returns a page,
  and its \<open>count\<close> is the \<^verbatim>\<open>length\<close> of its \<open>items\<close>. When the object has no field of the
  name, the items are the empty array and the count is 0; when the field is an array, as
  the field of a list is, the items are that array and the count is its length. \<open>total\<close>
  is the value of \<^verbatim>\<open>meta.total\<close> when \<^verbatim>\<open>meta\<close> is an object that has it, and
  \<^verbatim>\<open>undefined\<close> in every other case.
\<close>

theorem parsePaginatedResponse_count:
  "\<exists>pr. parsePaginatedResponse pf (JObj kvs) key = Inr pr
       \<and> count pr = opt_prop (items pr) ''length''
       \<and> (map_of kvs key = None \<longrightarrow> items pr = JArr [] \<and> count pr = JNum ''0'')
       \<and> (\<forall>xs. map_of kvs key = Some (JArr xs) \<longrightarrow>
             items pr = JArr xs \<and> count pr = JNum (show_nat (length xs)))
       \<and> total pr =
           (case map_of kvs ''meta'' of
              Some (JObj m) \<Rightarrow> (case map_of m ''total'' of Some t \<Rightarrow> t | None \<Rightarrow> JUndefined)
            | _ \<Rightarrow> JUndefined)"
  by (auto simp add: parsePaginatedResponse_object own_def or_else_def opt_prop_def
      split: option.splits jsval.splits)

text \<open>
  Three items, a total of 50 and a link to page 3; and an object that has neither the list
  nor \<^verbatim>\<open>meta\<close>.
\<close>

theorem parsePaginatedResponse_count_witness:
  "map_of page_of_droplets ''droplets'' = Some (JArr three_droplets)
 \<and> (\<exists>pr. parsePaginatedResponse url_platform (JObj page_of_droplets) ''droplets'' = Inr pr
        \<and> items pr = JArr three_droplets \<and> count pr = JNum ''3'' \<and> total pr = JNum ''50'')
 \<and> map_of [] ''droplets'' = (None :: jsval option)
 \<and> (\<exists>pr. parsePaginatedResponse url_platform (JObj []) ''droplets'' = Inr pr
        \<and> items pr = JArr [] \<and> count pr = JNum ''0'' \<and> total pr = JUndefined)"
proof -
  have f: "map_of page_of_droplets ''droplets'' = Some (JArr three_droplets)"
    by (simp add: page_of_droplets_def)
  have m: "map_of page_of_droplets ''meta'' = Some (JObj [(''total'', JNum ''50'')])"
    by (simp add: page_of_droplets_def)
  have l: "length three_droplets = 3"
    by (simp add: three_droplets_def)
  have one: "\<exists>pr. parsePaginatedResponse url_platform (JObj page_of_droplets) ''droplets'' = Inr pr
        \<and> items pr = JArr three_droplets \<and> count pr = JNum ''3'' \<and> total pr = JNum ''50''"
    using parsePaginatedResponse_count [of url_platform page_of_droplets "''droplets''"] f m l
    by auto
  have two: "\<exists>pr. parsePaginatedResponse url_platform (JObj []) ''droplets'' = Inr pr
        \<and> items pr = JArr [] \<and> count pr = JNum ''0'' \<and> total pr = JUndefined"
    using parsePaginatedResponse_count [of url_platform "[]" "''droplets''"]
    by auto
  show ?thesis
    using f one two by simp
qed

subsection \<open>The next page\<close>

text \<open>Without a truthy \<^verbatim>\<open>links.pages.next\<close> there is no more and no next page.\<close>

lemma parsePaginatedResponse_no_next:
  assumes "\<not> truthy (opt_prop (opt_prop (own kvs ''links'') ''pages'') ''next'')"
  shows "\<exists>pr. parsePaginatedResponse pf (JObj kvs) key = Inr pr
           \<and> \<not> hasMore pr \<and> nextPage pr = JUndefined"
  using assms by (simp add: parsePaginatedResponse_object)

text \<open>
  A cursor that the URL parser rejects, or that has no \<^verbatim>\<open>page\<close> parameter, or an empty
  one, leaves the page number \<^verbatim>\<open>undefined\<close>; nothing is thrown.
\<close>

lemma extractPageNumber_malformed:
  "URL_searchParams pf u = None \<Longrightarrow> extractPageNumber pf (JStr u) = JUndefined"
  by (simp add: extractPageNumber_def)

lemma extractPageNumber_no_page:
  "URL_searchParams pf u = Some ps \<Longrightarrow> map_of ps ''page'' = None \<or> map_of ps ''page'' = Some []
     \<Longrightarrow> extractPageNumber pf (JStr u) = JUndefined"
  by (auto simp add: extractPageNumber_def)

lemma parsePaginatedResponse_unknown_page:
  assumes "opt_prop (opt_prop (own kvs ''links'') ''pages'') ''next'' = JStr u" and "u \<noteq> []"
    and "URL_searchParams pf u = None
         \<or> (\<exists>ps. URL_searchParams pf u = Some ps
                \<and> (map_of ps ''page'' = None \<or> map_of ps ''page'' = Some []))"
  shows "\<exists>pr. parsePaginatedResponse pf (JObj kvs) key = Inr pr
           \<and> hasMore pr \<and> nextPage pr = JUndefined"
  using assms by (auto simp add: parsePaginatedResponse_object extractPageNumber_def)

text \<open>
  C2. The claim leaves \<open>nextPage\<close> absent when the \<^verbatim>\<open>page\<close> parameter of the cursor is
  not numeric. For the cursor \<^verbatim>\<open>https://api.digitalocean.com/v2/droplets?page=abc\<close> the
  normalizer does not throw and reports more, but the page number is \<^verbatim>\<open>NaN\<close>:
  \<^verbatim>\<open>extractPageNumber\<close> returns what \<^verbatim>\<open>parseInt\<close> gives without testing it.
\<close>

theorem parsePaginatedResponse_unparsed_page:
  "parsePaginatedResponse url_platform (JObj page_with_bad_cursor) ''droplets''
     = Inr \<lparr> items = JArr [], count = JNum ''0'', total = JUndefined, hasMore = True,
             nextPage = JNaN \<rparr>
 \<and> JNaN \<noteq> JUndefined"
  by (simp add: parsePaginatedResponse_object own_def page_with_bad_cursor_def opt_prop_def
      or_else_def extractPageNumber_def url_platform_def responding_def known_urls_def
      parseInt_def)

section \<open>Properties of the query-string builder\<close>

lemma searchParams_set_fresh:
  "k \<notin> fst ` set ps \<Longrightarrow> searchParams_set k v ps = ps @ [(k, v)]"
  by (induction ps) auto

text \<open>Setting distinct names one after the other appends them in order.\<close>

lemma set_entries_distinct:
  assumes "distinct (map fst xs)" and "fst ` set xs \<inter> fst ` set acc = {}"
  shows "set_entries xs acc =
           and_then (map_err ToString (map snd xs)) (\<lambda>texts. Inr (acc @ zip (map fst xs) texts))"
  using assms
proof (induction xs arbitrary: acc)
  case Nil
  then show ?case by (simp add: and_then_def)
next
  case (Cons x xs)
  have fresh: "fst x \<notin> fst ` set acc"
    using Cons.prems(2) by auto
  have d: "distinct (map fst xs)" and nx: "fst x \<notin> fst ` set xs"
    using Cons.prems(1) by auto
  have step: "set_entries xs (searchParams_set (fst x) v acc) =
                and_then (map_err ToString (map snd xs))
                  (\<lambda>texts. Inr ((acc @ [(fst x, v)]) @ zip (map fst xs) texts))" for v
  proof -
    have disj: "fst ` set xs \<inter> fst ` set (acc @ [(fst x, v)]) = {}"
      using Cons.prems(2) nx by auto
    show ?thesis
      using Cons.IH [OF d disj] searchParams_set_fresh [OF fresh, of v] by simp
  qed
  show ?case
    by (simp add: step and_then_def split: sum.splits)
qed

lemma split_on_absent: "d \<notin> set x \<Longrightarrow> split_on d x = [x]"
  by (induction x) auto

lemma split_on_append: "d \<notin> set x \<Longrightarrow> split_on d (x @ d # rest) = x # split_on d rest"
  by (induction x) auto

lemma split_on_join:
  assumes "xs \<noteq> []" and "\<forall>x\<in>set xs. d \<notin> set x"
  shows "split_on d (join [d] xs) = xs"
  using assms
proof (induction "[d]" xs rule: join.induct)
  case 1
  then show ?case by simp
next
  case (2 x)
  then show ?case by (simp add: split_on_absent)
next
  case (3 x y ys)
  then show ?case by (simp add: split_on_append)
qed

lemma hex_digit_in: "i < 16 \<Longrightarrow> ''0123456789ABCDEF'' ! i \<in> set ''0123456789ABCDEF''"
  by (rule nth_mem) simp

lemma hex_val_table:
  "map hex_val ''0123456789ABCDEF'' = map Some [0..<16]"
  by code_simp

lemma hex_val_nth:
  assumes "i < 16"
  shows "hex_val (''0123456789ABCDEF'' ! i) = Some i"
proof -
  have "hex_val (''0123456789ABCDEF'' ! i) = map hex_val ''0123456789ABCDEF'' ! i"
    using assms by (intro nth_map [symmetric]) simp
  also have "\<dots> = map Some [0..<16] ! i"
    by (simp only: hex_val_table)
  also have "\<dots> = Some i"
    using assms by simp
  finally show ?thesis .
qed

lemma percent_decode_hex_byte:
  assumes "n < 256"
  shows "percent_decode (hex_byte n @ rest) = map_option ((#) n) (percent_decode rest)"
proof -
  have a: "hex_val (''0123456789ABCDEF'' ! (n div 16)) = Some (n div 16)"
    using assms by (intro hex_val_nth) simp
  have b: "hex_val (''0123456789ABCDEF'' ! (n mod 16)) = Some (n mod 16)"
    by (intro hex_val_nth) simp
  show ?thesis
    by (cases "percent_decode rest") (simp_all add: hex_byte_def a b)
qed


lemma hex_byte_chars:
  assumes "n < 256"
  shows "set (hex_byte n) \<subseteq> set ''%0123456789ABCDEF''"
proof -
  have a: "n div 16 < 16" using assms by simp
  have b: "n mod 16 < 16" by simp
  have "''0123456789ABCDEF'' ! (n div 16) \<in> set ''0123456789ABCDEF''"
    using a by (rule hex_digit_in)
  moreover have "''0123456789ABCDEF'' ! (n mod 16) \<in> set ''0123456789ABCDEF''"
    using b by (rule hex_digit_in)
  ultimately show ?thesis
    unfolding hex_byte_def by simp
qed

lemma of_char_less_256: "(of_char c :: nat) < 256"
  by (cases c) (simp add: of_char_def)

lemma utf8_bytes_small: "\<forall>n\<in>set (utf8_bytes c). n < 256"
proof -
  have "(of_char c :: nat) < 256" by (rule of_char_less_256)
  then have "(of_char c :: nat) div 64 < 4"
    by (simp add: div_less_iff_less_mult)
  then have "192 + (of_char c :: nat) div 64 < 256" by simp
  moreover have "128 + (of_char c :: nat) mod 64 < 256"
    using mod_less_divisor [of 64 "of_char c :: nat"] by simp
  ultimately show ?thesis
    using of_char_less_256 [of c] by (simp add: utf8_bytes_def Let_def)
qed

lemma hex_chars_safe: "set ''%0123456789ABCDEF'' \<subseteq> url_safe"
  by (simp add: url_safe_def)

lemma kept_chars_safe:
  "set ''*-._0123456789ABCDEFGHIJKLMNOPQRSTUVWXYZabcdefghijklmnopqrstuvwxyz'' \<subseteq> url_safe"
  by (simp add: url_safe_def)

lemma urlencode_char_safe: "set (urlencode_char c) \<subseteq> url_safe"
proof -
  have "set (hex_byte n) \<subseteq> url_safe" if "n < 256" for n
    using hex_byte_chars [OF that] hex_chars_safe by (rule subset_trans)
  then have hex: "set (concat (map hex_byte (utf8_bytes c))) \<subseteq> url_safe"
    using utf8_bytes_small [of c] by auto
  have plus: "set ''+'' \<subseteq> url_safe"
    by (simp add: url_safe_def)
  show ?thesis
  proof (cases "c = CHR '' ''")
    case True
    then show ?thesis using plus by (simp add: urlencode_char_def)
  next
    case False
    show ?thesis
    proof (cases "c \<in> set ''*-._0123456789ABCDEFGHIJKLMNOPQRSTUVWXYZabcdefghijklmnopqrstuvwxyz''")
      case True
      then have "c \<in> url_safe" using kept_chars_safe by (rule subsetD [rotated])
      then show ?thesis using False True by (simp only: urlencode_char_def if_True if_False) simp
    next
      case no: False
      show ?thesis using False no hex by (simp only: urlencode_char_def if_False)
    qed
  qed
qed

lemma urlencode_safe: "set (urlencode s) \<subseteq> url_safe"
  using urlencode_char_safe by (auto simp add: urlencode_def)

lemma separators_unsafe: "CHR ''&'' \<notin> url_safe" "CHR ''='' \<notin> url_safe"
  by (simp_all add: url_safe_def)

lemma urlencode_no_amp: "CHR ''&'' \<notin> set (urlencode s)"
  using urlencode_safe [of s] separators_unsafe by auto

lemma urlencode_no_eq: "CHR ''='' \<notin> set (urlencode s)"
  using urlencode_safe [of s] separators_unsafe by auto

lemma split_pair:
  "split_on CHR ''='' (urlencode k @ CHR ''='' # urlencode v) = [urlencode k, urlencode v]"
  using split_on_append [OF urlencode_no_eq, of k "urlencode v"]
    split_on_absent [OF urlencode_no_eq, of v]
  by simp

lemma kept_chars_plain:
  "list_all (\<lambda>c. c \<noteq> CHR ''%'' \<and> c \<noteq> CHR ''+'' \<and> (of_char c :: nat) < 128)
     ''*-._0123456789ABCDEFGHIJKLMNOPQRSTUVWXYZabcdefghijklmnopqrstuvwxyz''"
  by simp

lemma kept_char_plain:
  assumes "c \<in> set ''*-._0123456789ABCDEFGHIJKLMNOPQRSTUVWXYZabcdefghijklmnopqrstuvwxyz''"
  shows "c \<noteq> CHR ''%'' \<and> c \<noteq> CHR ''+'' \<and> (of_char c :: nat) < 128"
  using kept_chars_plain assms unfolding list_all_iff by blast

lemma percent_decode_hex_bytes:
  assumes "\<forall>n\<in>set bs. n < 256"
  shows "percent_decode (concat (map hex_byte bs) @ rest) = map_option ((@) bs) (percent_decode rest)"
  using assms
proof (induction bs)
  case Nil
  then show ?case by (simp add: option.map_ident)
next
  case (Cons b bs)
  then show ?case
    by (simp add: percent_decode_hex_byte option.map_comp comp_def)
qed

lemma percent_decode_char:
  "percent_decode (urlencode_char c @ rest) = map_option ((@) (utf8_bytes c)) (percent_decode rest)"
proof (cases "c = CHR '' ''")
  case True
  then show ?thesis
    by (cases "percent_decode rest") (simp_all add: urlencode_char_def utf8_bytes_def)
next
  case False
  show ?thesis
  proof (cases "c \<in> set ''*-._0123456789ABCDEFGHIJKLMNOPQRSTUVWXYZabcdefghijklmnopqrstuvwxyz''")
    case True
    have e: "urlencode_char c = [c]"
      using False True by (simp only: urlencode_char_def if_True if_False)
    have p: "c \<noteq> CHR ''%'' \<and> c \<noteq> CHR ''+'' \<and> (of_char c :: nat) < 128"
      using True by (rule kept_char_plain)
    show ?thesis
      using p by (cases "percent_decode rest") (simp_all add: e utf8_bytes_def)
  next
    case no: False
    have e: "urlencode_char c = concat (map hex_byte (utf8_bytes c))"
      using False no by (simp only: urlencode_char_def if_False)
    show ?thesis
      unfolding e using utf8_bytes_small [of c] by (rule percent_decode_hex_bytes)
  qed
qed

text \<open>Reading an encoded text back gives the UTF-8 bytes of what was encoded.\<close>

lemma percent_decode_urlencode: "percent_decode (urlencode s) = Some (utf8 s)"
proof (induction s)
  case Nil
  then show ?case by (simp add: urlencode_def utf8_def)
next
  case (Cons c s)
  have "percent_decode (urlencode (c # s)) = percent_decode (urlencode_char c @ urlencode s)"
    by (simp add: urlencode_def)
  also have "\<dots> = map_option ((@) (utf8_bytes c)) (percent_decode (urlencode s))"
    by (rule percent_decode_char)
  also have "\<dots> = Some (utf8 (c # s))"
    using Cons.IH by (simp add: utf8_def)
  finally show ?case .
qed

lemma urlencode_append: "urlencode (a @ b) = urlencode a @ urlencode b"
  by (simp add: urlencode_def)

text \<open>The encoding of one character, written out.\<close>

lemma urlencode_single:
  "urlencode [c] =
     (if c = CHR '' '' then ''+''
      else if c \<in> set ''*-._0123456789ABCDEFGHIJKLMNOPQRSTUVWXYZabcdefghijklmnopqrstuvwxyz''
      then [c]
      else if (of_char c :: nat) < 128
      then [CHR ''%'', ''0123456789ABCDEF'' ! (of_char c div 16),
            ''0123456789ABCDEF'' ! (of_char c mod 16)]
      else [CHR ''%'', ''0123456789ABCDEF'' ! ((192 + of_char c div 64) div 16),
            ''0123456789ABCDEF'' ! ((192 + of_char c div 64) mod 16),
            CHR ''%'', ''0123456789ABCDEF'' ! ((128 + of_char c mod 64) div 16),
            ''0123456789ABCDEF'' ! ((128 + of_char c mod 64) mod 16)])"
  by (simp add: urlencode_def urlencode_char_def utf8_bytes_def hex_byte_def Let_def)

text \<open>A value that is not an object or an array is stringified without throwing.\<close>

lemma map_err_ToString_primitives:
  assumes "\<forall>v\<in>set vs. \<not> typeof_object v"
  shows "\<exists>texts. map_err ToString vs = Inr texts"
  using assms
proof (induction vs)
  case Nil
  then show ?case by simp
next
  case (Cons v vs)
  obtain s where s: "ToString v = Inr s"
    using Cons.prems by (cases v) simp_all
  obtain texts where t: "map_err ToString vs = Inr texts"
    using Cons by auto
  show ?case
    by (simp add: s t and_then_def)
qed


text \<open>
  C5. The parameters are the entries of an object, so their names are distinct. The
  entries whose value is \<^verbatim>\<open>undefined\<close>, \<^verbatim>\<open>null\<close> or the empty string are dropped. When
  none is left the result is the empty string. Otherwise the values that are left are
  stringified in order; a value that is not an object or an array, as in a flat map,
  never throws, and a string, a number or a boolean gives its own text. The result is
  \<^verbatim>\<open>?\<close> followed by one \<^verbatim>\<open>name=value\<close> for each entry that is left, in their order,
  joined by \<^verbatim>\<open>&\<close>, with the name and the text of the value encoded. Cutting what
  follows the \<^verbatim>\<open>?\<close> at \<^verbatim>\<open>&\<close> and \<^verbatim>\<open>=\<close> and reading the escapes back gives exactly the
  UTF-8 bytes of these names and texts, no other. The encoding is the form encoding, one
  character at a time: a space is \<^verbatim>\<open>+\<close>, the ASCII letters and digits and \<^verbatim>\<open>*-._\<close> are
  kept, and every other character is its UTF-8 bytes, each written as \<^verbatim>\<open>%\<close> and two
  upper-case hexadecimal digits. The builder is a function of the entries, so the same
  map always gives the same string.
\<close>

theorem buildQueryString_surviving:
  assumes "distinct (map fst params)"
  shows "(filter (\<lambda>kv. snd kv \<notin> {JUndefined, JNull, JStr []}) params = [] \<longrightarrow>
            buildQueryString params = Inr [])
       \<and> (\<forall>texts.
             filter (\<lambda>kv. snd kv \<notin> {JUndefined, JNull, JStr []}) params \<noteq> [] \<and>
             map_err ToString (map snd (filter (\<lambda>kv. snd kv \<notin> {JUndefined, JNull, JStr []}) params))
               = Inr texts \<longrightarrow>
             buildQueryString params =
               Inr (CHR ''?'' # join ''&''
                 (map (\<lambda>kt. urlencode (fst kt) @ ''='' @ urlencode (snd kt))
                    (zip (map fst (filter (\<lambda>kv. snd kv \<notin> {JUndefined, JNull, JStr []}) params))
                       texts)))
           \<and> map (\<lambda>pair. map percent_decode (split_on CHR ''='' pair))
                 (split_on CHR ''&''
                    (join ''&''
                       (map (\<lambda>kt. urlencode (fst kt) @ ''='' @ urlencode (snd kt))
                          (zip (map fst (filter (\<lambda>kv. snd kv \<notin> {JUndefined, JNull, JStr []}) params))
                             texts)))) =
               map (\<lambda>kt. [Some (utf8 (fst kt)), Some (utf8 (snd kt))])
                 (zip (map fst (filter (\<lambda>kv. snd kv \<notin> {JUndefined, JNull, JStr []}) params))
                    texts))
       \<and> (\<forall>e. map_err ToString (map snd (filter (\<lambda>kv. snd kv \<notin> {JUndefined, JNull, JStr []}) params))
                 = Inl e \<longrightarrow>
             buildQueryString params = Inl e)
       \<and> ((\<forall>kv\<in>set params. snd kv = JNull \<or> \<not> typeof_object (snd kv)) \<longrightarrow>
            (\<exists>texts. map_err ToString
                        (map snd (filter (\<lambda>kv. snd kv \<notin> {JUndefined, JNull, JStr []}) params))
                        = Inr texts))
       \<and> (\<forall>s. ToString (JStr s) = Inr s) \<and> (\<forall>t. ToString (JNum t) = Inr t)
       \<and> ToString (JBool True) = Inr ''true'' \<and> ToString (JBool False) = Inr ''false''
       \<and> (\<forall>c. urlencode [c] =
             (if c = CHR '' '' then ''+''
              else if c \<in> set ''*-._0123456789ABCDEFGHIJKLMNOPQRSTUVWXYZabcdefghijklmnopqrstuvwxyz''
              then [c]
              else if (of_char c :: nat) < 128
              then [CHR ''%'', ''0123456789ABCDEF'' ! (of_char c div 16),
                    ''0123456789ABCDEF'' ! (of_char c mod 16)]
              else [CHR ''%'', ''0123456789ABCDEF'' ! ((192 + of_char c div 64) div 16),
                    ''0123456789ABCDEF'' ! ((192 + of_char c div 64) mod 16),
                    CHR ''%'', ''0123456789ABCDEF'' ! ((128 + of_char c mod 64) div 16),
                    ''0123456789ABCDEF'' ! ((128 + of_char c mod 64) mod 16)]))
       \<and> (\<forall>a b. urlencode (a @ b) = urlencode a @ urlencode b) \<and> urlencode [] = []"
proof -
  define kept where "kept = filter (\<lambda>kv. snd kv \<notin> {JUndefined, JNull, JStr []}) params"
  let ?pairs = "\<lambda>texts. zip (map fst kept) texts"
  let ?segs = "\<lambda>texts. map (\<lambda>kt. urlencode (fst kt) @ ''='' @ urlencode (snd kt)) (?pairs texts)"
  have kept_eq:
    "filter (\<lambda>kv. snd kv \<noteq> JUndefined \<and> snd kv \<noteq> JNull \<and> snd kv \<noteq> JStr []) params = kept"
    unfolding kept_def by (rule filter_cong) auto
  have d: "distinct (map fst kept)"
    unfolding kept_def using assms by (rule distinct_map_filter)
  have loop: "set_entries kept [] =
                and_then (map_err ToString (map snd kept)) (\<lambda>texts. Inr (?pairs texts))"
    using set_entries_distinct [OF d, of "[]"] by simp
  have none_left: "kept = [] \<Longrightarrow> buildQueryString params = Inr []"
    by (simp add: buildQueryString_def kept_eq)
  have shape: "buildQueryString params = Inr (CHR ''?'' # join ''&'' (?segs texts))"
    if "kept \<noteq> []" and "map_err ToString (map snd kept) = Inr texts" for texts
    using that
    by (simp add: buildQueryString_def kept_eq loop and_then_def searchParams_toString_def Let_def)
  have thrown: "buildQueryString params = Inl e"
    if t: "map_err ToString (map snd kept) = Inl e" for e
  proof -
    have "kept \<noteq> []" using t by auto
    then show ?thesis
      using t by (simp add: buildQueryString_def kept_eq loop and_then_def Let_def)
  qed
  have len: "length texts = length kept"
    if "map_err ToString (map snd kept) = Inr texts" for texts
  proof -
    have "map_err f xs = Inr ys \<Longrightarrow> length ys = length xs" for f :: "jsval \<Rightarrow> error + string" and xs ys
      by (induction xs arbitrary: ys) (auto simp add: and_then_def split: sum.splits)
    from this [OF that] show ?thesis by simp
  qed
  have reread:
    "map (\<lambda>pair. map percent_decode (split_on CHR ''='' pair))
       (split_on CHR ''&'' (join ''&'' (?segs texts))) =
     map (\<lambda>kt. [Some (utf8 (fst kt)), Some (utf8 (snd kt))]) (?pairs texts)"
    if ne: "kept \<noteq> []" and t: "map_err ToString (map snd kept) = Inr texts" for texts
  proof -
    have "?pairs texts \<noteq> []"
      using ne len [OF t] by (cases kept; cases texts) simp_all
    then have "?segs texts \<noteq> []" by simp
    moreover have "\<forall>x\<in>set (?segs texts). CHR ''&'' \<notin> set x"
      using urlencode_no_amp by auto
    ultimately have "split_on CHR ''&'' (join ''&'' (?segs texts)) = ?segs texts"
      by (rule split_on_join)
    then show ?thesis
      by (simp add: comp_def split_pair percent_decode_urlencode)
  qed
  have flat: "\<exists>texts. map_err ToString (map snd kept) = Inr texts"
    if "\<forall>kv\<in>set params. snd kv = JNull \<or> \<not> typeof_object (snd kv)"
  proof (rule map_err_ToString_primitives)
    show "\<forall>v\<in>set (map snd kept). \<not> typeof_object v"
      using that unfolding kept_def by auto
  qed
  show ?thesis
    using none_left shape reread thrown flat urlencode_single urlencode_append
    unfolding kept_def by (simp add: urlencode_def)
qed

text \<open>
  The sample parameters give \<^verbatim>\<open>?per_page=20&page=1e%2B21&name=a%26b%3Dc%2Fd&...\<close>; a map
  of which nothing is left gives the empty string; and a value with an own \<^verbatim>\<open>toString\<close>
  makes the builder throw.
\<close>

theorem buildQueryString_surviving_witness:
  "distinct (map fst list_params)
 \<and> list_all (\<lambda>kv. snd kv = JNull \<or> \<not> typeof_object (snd kv)) list_params
 \<and> filter (\<lambda>kv. snd kv \<notin> {JUndefined, JNull, JStr []}) list_params \<noteq> []
 \<and> map_err ToString (map snd (filter (\<lambda>kv. snd kv \<notin> {JUndefined, JNull, JStr []}) list_params))
     = Inr [''20'', ''1e+21'', ''a&b=c/d'', ''web server'',
            [CHR ''O'', CHR ''r'', CHR ''l'', CHR 0xE9, CHR ''a'', CHR ''n'', CHR ''s'']]
 \<and> buildQueryString list_params
     = Inr ''?per_page=20&page=1e%2B21&name=a%26b%3Dc%2Fd&tag_name=web+server&city=Orl%C3%A9ans''
 \<and> distinct (map fst blank_params)
 \<and> filter (\<lambda>kv. snd kv \<notin> {JUndefined, JNull, JStr []}) blank_params = []
 \<and> buildQueryString blank_params = Inr []
 \<and> distinct (map fst odd_params)
 \<and> map_err ToString (map snd (filter (\<lambda>kv. snd kv \<notin> {JUndefined, JNull, JStr []}) odd_params))
     = Inl TypeError
 \<and> buildQueryString odd_params = Inl TypeError"
proof -
  have d1: "distinct (map fst list_params)"
    by (simp add: list_params_def)
  have f1: "list_all (\<lambda>kv. snd kv = JNull \<or> \<not> typeof_object (snd kv)) list_params"
    by (simp add: list_params_def)
  have k1: "filter (\<lambda>kv. snd kv \<notin> {JUndefined, JNull, JStr []}) list_params
              = [(''per_page'', JNum ''20''), (''page'', JNum ''1e+21''), (''name'', JStr ''a&b=c/d''),
                 (''tag_name'', JStr ''web server''),
                 (''city'', JStr [CHR ''O'', CHR ''r'', CHR ''l'', CHR 0xE9, CHR ''a'', CHR ''n'', CHR ''s''])]"
    by (simp add: list_params_def)
  have t1: "map_err ToString (map snd (filter (\<lambda>kv. snd kv \<notin> {JUndefined, JNull, JStr []}) list_params))
     = Inr [''20'', ''1e+21'', ''a&b=c/d'', ''web server'',
            [CHR ''O'', CHR ''r'', CHR ''l'', CHR 0xE9, CHR ''a'', CHR ''n'', CHR ''s'']]"
    unfolding k1 by (simp add: and_then_def)
  have d2: "distinct (map fst blank_params)"
    by (simp add: blank_params_def)
  have k2: "filter (\<lambda>kv. snd kv \<notin> {JUndefined, JNull, JStr []}) blank_params = []"
    by (simp add: blank_params_def)
  have d3: "distinct (map fst odd_params)"
    by (simp add: odd_params_def)
  have k3: "filter (\<lambda>kv. snd kv \<notin> {JUndefined, JNull, JStr []}) odd_params
              = [(''filter'', JObj [(''toString'', JNum ''1'')])]"
    by (simp add: odd_params_def)
  have t3: "map_err ToString (map snd (filter (\<lambda>kv. snd kv \<notin> {JUndefined, JNull, JStr []}) odd_params))
     = Inl TypeError"
    unfolding k3 by (simp add: and_then_def)
  have ne: "filter (\<lambda>kv. snd kv \<notin> {JUndefined, JNull, JStr []}) list_params \<noteq> []"
    unfolding k1 by simp
  have "buildQueryString list_params =
          Inr (CHR ''?'' # join ''&''
                 (map (\<lambda>kt. urlencode (fst kt) @ ''='' @ urlencode (snd kt))
                    (zip (map fst (filter (\<lambda>kv. snd kv \<notin> {JUndefined, JNull, JStr []}) list_params))
                       [''20'', ''1e+21'', ''a&b=c/d'', ''web server'',
                        [CHR ''O'', CHR ''r'', CHR ''l'', CHR 0xE9, CHR ''a'', CHR ''n'', CHR ''s'']])))"
    using buildQueryString_surviving [OF d1] ne t1 by blast
  then have q1: "buildQueryString list_params
     = Inr ''?per_page=20&page=1e%2B21&name=a%26b%3Dc%2Fd&tag_name=web+server&city=Orl%C3%A9ans''"
    unfolding k1 by (simp add: urlencode_def urlencode_char_def utf8_bytes_def hex_byte_def)
  have q2: "buildQueryString blank_params = Inr []"
    using buildQueryString_surviving [OF d2] k2 by blast
  have q3: "buildQueryString odd_params = Inl TypeError"
    using buildQueryString_surviving [OF d3] t3 by blast
  show ?thesis
    using d1 f1 ne t1 q1 d2 k2 q2 d3 t3 q3 by blast
qed

section \<open>Properties of the response formatter\<close>

lemma get_prop_opt_prop: "\<not> nullish v \<Longrightarrow> get_prop v k = Inr (opt_prop v k)"
  by (cases v) (simp_all add: opt_prop_def)

lemma map_err_total:
  assumes "\<forall>x\<in>set xs. f x = Inr (g x)"
  shows "map_err f xs = Inr (map g xs)"
  using assms by (induction xs) (simp_all add: and_then_def)

text \<open>The cell of the source never throws, and is the cell of the specification.\<close>

lemma cell_refines: "cell m = Inr (cell_as_specified m)"
proof (cases m)
  case (Value v)
  then show ?thesis by (cases v) (simp_all add: and_then_def)
next
  case (Function source)
  then show ?thesis by simp
qed

text \<open>A row of the generic table for an item that is not \<^verbatim>\<open>null\<close>.\<close>

lemma generic_row:
  assumes "\<not> nullish item"
  shows "and_then (map_err (\<lambda>k. and_then (read_member inherited item k) cell) keys)
           (\<lambda>values. Inr (''| '' @ join '' | '' values @ '' |''))
         = Inr (''| '' @ join '' | ''
                  (map (\<lambda>k. cell_as_specified (member_of inherited item k)) keys) @ '' |'')"
proof -
  have "map_err (\<lambda>k. and_then (read_member inherited item k) cell) keys
          = Inr (map (\<lambda>k. cell_as_specified (member_of inherited item k)) keys)"
    by (rule map_err_total) (simp add: read_member_def assms and_then_def cell_refines)
  then show ?thesis
    by (simp add: and_then_def)
qed

lemma object_keys_total: "\<not> nullish v \<Longrightarrow> \<exists>keys. object_keys v = Inr keys"
  by (cases v) simp_all

lemma formatGenericTable_rows:
  assumes "item_list \<noteq> []" and "\<forall>item\<in>set item_list. \<not> nullish item"
    and "object_keys (hd item_list) = Inr keys"
  shows "formatGenericTable inherited item_list =
           Inr (join newline
                  ([''| '' @ join '' | '' (take 6 keys) @ '' |'',
                    ''|'' @ join ''|'' (map (\<lambda>k. ''---'') (take 6 keys)) @ ''|'']
                   @ map (\<lambda>item. ''| '' @ join '' | ''
                                     (map (\<lambda>k. cell_as_specified (member_of inherited item k))
                                        (take 6 keys)) @ '' |'')
                       item_list))"
proof -
  obtain first rest where l: "item_list = first # rest"
    using assms(1) by (cases item_list) auto
  let ?row = "\<lambda>item. and_then (map_err (\<lambda>k. and_then (read_member inherited item k) cell) (take 6 keys))
                 (\<lambda>values. Inr (''| '' @ join '' | '' values @ '' |''))"
  have "map_err ?row item_list
          = Inr (map (\<lambda>item. ''| '' @ join '' | ''
                                 (map (\<lambda>k. cell_as_specified (member_of inherited item k))
                                    (take 6 keys)) @ '' |'')
                   item_list)"
    by (rule map_err_total) (use assms(2) generic_row in blast)
  then show ?thesis
    using assms(3) l by (simp add: formatGenericTable_def table_of_def and_then_def Let_def)
qed

lemma items_table_default:
  assumes "entityType \<notin> set [''droplets'', ''volumes'', ''firewalls'', ''load_balancers'', ''vpcs'',
                               ''kubernetes_clusters'', ''databases'', ''apps'']"
  shows "items_table inherited entityType xs = formatGenericTable inherited xs"
  using assms by (simp add: items_table_def)

lemma formatPaginatedAsMarkdown_object:
  assumes "map_of kvs ''items'' = Some (JArr xs)"
  shows "formatPaginatedAsMarkdown inherited (JObj kvs) entityType =
           and_then (page_heading (own kvs ''total'') (own kvs ''count'') (own kvs ''hasMore'')
                       (own kvs ''nextPage'') entityType) (\<lambda>lines.
             if xs = [] then Inr (join newline (lines @ [''_No items found._'']))
             else and_then (items_table inherited entityType xs) (\<lambda>t.
                    Inr (join newline (lines @ [t]))))"
  using assms
  by (simp add: formatPaginatedAsMarkdown_def and_then_def Let_def own_def split: sum.split)


text \<open>
  C9, as amended. Markdown rendering of a non-empty list of items none of which is
  \<^verbatim>\<open>null\<close> or \<^verbatim>\<open>undefined\<close>, under a tag that is none of the eight with a table of their
  own. The generic table does not throw. Its columns are the first six of the keys of the
  first item (the names of its fields when it is an object), or all of them when it has
  fewer. After the header row and the separator comes one row for each item, whose cells
  are those of the column names in that item: a dash for \<^verbatim>\<open>null\<close> and \<^verbatim>\<open>undefined\<close>, which
  is also what a name reads that the item neither has nor inherits, the placeholder
  \<^verbatim>\<open>[object]\<close> for a nested object or array, and else the first 50 characters of the
  stringified value. In markdown mode an object whose \<^verbatim>\<open>items\<close> is this list is rendered
  as the heading followed by this table.
\<close>

theorem generic_table_columns:
  assumes "entityType \<notin> set [''droplets'', ''volumes'', ''firewalls'', ''load_balancers'', ''vpcs'',
                               ''kubernetes_clusters'', ''databases'', ''apps'']"
    and "item_list \<noteq> []" and "\<forall>item\<in>set item_list. \<not> nullish item"
  shows "\<exists>keys. object_keys (hd item_list) = Inr keys
           \<and> length (take 6 keys) \<le> 6
           \<and> items_table inherited entityType item_list =
               Inr (join newline
                      ([''| '' @ join '' | '' (take 6 keys) @ '' |'',
                        ''|'' @ join ''|'' (map (\<lambda>k. ''---'') (take 6 keys)) @ ''|'']
                       @ map (\<lambda>item. ''| '' @ join '' | ''
                                         (map (\<lambda>k. cell_as_specified (member_of inherited item k))
                                            (take 6 keys)) @ '' |'')
                           item_list))
           \<and> (\<forall>stringify kvs.
                 map_of kvs ''items'' = Some (JArr item_list) \<longrightarrow>
                 formatAsMarkdown stringify inherited (JObj kvs) entityType =
                   and_then (page_heading (own kvs ''total'') (own kvs ''count'')
                               (own kvs ''hasMore'') (own kvs ''nextPage'') entityType) (\<lambda>lines.
                   Inr (join newline
                     (lines @
                      [join newline
                         ([''| '' @ join '' | '' (take 6 keys) @ '' |'',
                           ''|'' @ join ''|'' (map (\<lambda>k. ''---'') (take 6 keys)) @ ''|'']
                          @ map (\<lambda>item. ''| '' @ join '' | ''
                                   (map (\<lambda>k. cell_as_specified (member_of inherited item k))
                                      (take 6 keys)) @ '' |'')
                              item_list)]))))
           \<and> (\<forall>props. hd item_list = JObj props \<longrightarrow> keys = map fst props)
           \<and> (\<forall>m. cell m = Inr (cell_as_specified m))"
proof -
  have "\<not> nullish (hd item_list)"
    using assms(2,3) by simp
  then obtain keys where keys: "object_keys (hd item_list) = Inr keys"
    using object_keys_total by blast
  have t: "items_table inherited entityType item_list =
               Inr (join newline
                      ([''| '' @ join '' | '' (take 6 keys) @ '' |'',
                        ''|'' @ join ''|'' (map (\<lambda>k. ''---'') (take 6 keys)) @ ''|'']
                       @ map (\<lambda>item. ''| '' @ join '' | ''
                                         (map (\<lambda>k. cell_as_specified (member_of inherited item k))
                                            (take 6 keys)) @ '' |'')
                           item_list))"
    using items_table_default [OF assms(1)] formatGenericTable_rows [OF assms(2,3) keys]
    by simp
  have md: "formatAsMarkdown stringify inherited (JObj kvs) entityType =
                   and_then (page_heading (own kvs ''total'') (own kvs ''count'')
                               (own kvs ''hasMore'') (own kvs ''nextPage'') entityType) (\<lambda>lines.
                   Inr (join newline
                     (lines @
                      [join newline
                         ([''| '' @ join '' | '' (take 6 keys) @ '' |'',
                           ''|'' @ join ''|'' (map (\<lambda>k. ''---'') (take 6 keys)) @ ''|'']
                          @ map (\<lambda>item. ''| '' @ join '' | ''
                                   (map (\<lambda>k. cell_as_specified (member_of inherited item k))
                                      (take 6 keys)) @ '' |'')
                              item_list)])))"
    if i: "map_of kvs ''items'' = Some (JArr item_list)" for stringify kvs
  proof -
    have "isPaginatedResponse (JObj kvs)"
      using i by simp
    then have "formatAsMarkdown stringify inherited (JObj kvs) entityType =
                 formatPaginatedAsMarkdown inherited (JObj kvs) entityType"
      by (simp add: formatAsMarkdown_def)
    then show ?thesis
      using assms(2) by (simp add: formatPaginatedAsMarkdown_object [OF i] t and_then_def)
  qed
  have k: "keys = map fst props" if "hd item_list = JObj props" for props
    using keys that by simp
  show ?thesis
    using keys t md k cell_refines by (intro exI [of _ keys]) simp
qed


lemma wide_list: "map_of wide_items ''items'' =
   Some (JArr [JObj [(''name'', JStr ''example.com''), (''price'', JNum ''0.00744''),
                     (''zone_file'', JNull), (''tags'', JArr []),
                     (''constructor'', JObj [(''id'', JNum ''7'')]),
                     (''note'', JStr ''0123456789012345678901234567890123456789012345678901234567890''),
                     (''seventh'', JBool True)],
               JObj [(''name'', JStr ''example.org'')]])"
  by (simp add: wide_items_def)

text \<open>
  Two items under the tag \<^verbatim>\<open>domains\<close>. The first has seven fields: the seventh gets no
  column, the note is cut at 50 characters, the price is printed as it is. The second has
  only the name; under \<^verbatim>\<open>constructor\<close> it reads the function it inherits.
\<close>

theorem generic_table_columns_witness:
  "''domains'' \<notin> set [''droplets'', ''volumes'', ''firewalls'', ''load_balancers'', ''vpcs'',
                               ''kubernetes_clusters'', ''databases'', ''apps'']
  \<and> \<not> nullish (JObj [(''name'', JStr ''example.com''), (''price'', JNum ''0.00744''),
                     (''zone_file'', JNull), (''tags'', JArr []),
                     (''constructor'', JObj [(''id'', JNum ''7'')]),
                     (''note'', JStr ''0123456789012345678901234567890123456789012345678901234567890''),
                     (''seventh'', JBool True)])
  \<and> \<not> nullish (JObj [(''name'', JStr ''example.org'')])
  \<and> formatAsMarkdown no_stringify sample_inherited (JObj wide_items) ''domains'' =
     Inr (join newline
       [''## Domains'', [], ''**Showing:** 2'', [],
        ''| name | price | zone_file | tags | constructor | note |'',
        ''|---|---|---|---|---|---|'',
        ''| example.com | 0.00744 | - | [object] | [object] | 01234567890123456789012345678901234567890123456789 |'',
        ''| example.org | - | - | - | function Object() { [native code] } | - |''])"
proof -
  let ?first = "JObj [(''name'', JStr ''example.com''), (''price'', JNum ''0.00744''),
                     (''zone_file'', JNull), (''tags'', JArr []),
                     (''constructor'', JObj [(''id'', JNum ''7'')]),
                     (''note'', JStr ''0123456789012345678901234567890123456789012345678901234567890''),
                     (''seventh'', JBool True)]"
  let ?second = "JObj [(''name'', JStr ''example.org'')]"
  have tag: "''domains'' \<notin> set [''droplets'', ''volumes'', ''firewalls'', ''load_balancers'', ''vpcs'',
                               ''kubernetes_clusters'', ''databases'', ''apps'']"
    by simp
  have ne: "[?first, ?second] \<noteq> []"
    by simp
  have all: "\<forall>item\<in>set [?first, ?second]. \<not> nullish item"
    by simp
  have o: "own wide_items ''total'' = JUndefined" "own wide_items ''count'' = JNum ''2''"
     "own wide_items ''hasMore'' = JBool False" "own wide_items ''nextPage'' = JUndefined"
    by (simp_all add: own_def wide_items_def)
  have h: "page_heading JUndefined (JNum ''2'') (JBool False) JUndefined ''domains''
             = Inr [''## Domains'', [], ''**Showing:** 2'', []]"
    by (simp add: page_heading_def and_then_def capitalize_def toUpperCase_char_def)
  obtain keys where k: "object_keys (hd [?first, ?second]) = Inr keys"
    and md: "\<forall>stringify kvs.
                 map_of kvs ''items'' = Some (JArr [?first, ?second]) \<longrightarrow>
                 formatAsMarkdown stringify sample_inherited (JObj kvs) ''domains'' =
                   and_then (page_heading (own kvs ''total'') (own kvs ''count'')
                               (own kvs ''hasMore'') (own kvs ''nextPage'') ''domains'') (\<lambda>lines.
                   Inr (join newline
                     (lines @
                      [join newline
                         ([''| '' @ join '' | '' (take 6 keys) @ '' |'',
                           ''|'' @ join ''|'' (map (\<lambda>k. ''---'') (take 6 keys)) @ ''|'']
                          @ map (\<lambda>item. ''| '' @ join '' | ''
                                   (map (\<lambda>k. cell_as_specified (member_of sample_inherited item k))
                                      (take 6 keys)) @ '' |'')
                              [?first, ?second])])))"
    using generic_table_columns [OF tag ne all, of sample_inherited] by blast
  have keys: "keys = [''name'', ''price'', ''zone_file'', ''tags'', ''constructor'', ''note'', ''seventh'']"
    using k by simp
  have "formatAsMarkdown no_stringify sample_inherited (JObj wide_items) ''domains'' =
     Inr (join newline
       [''## Domains'', [], ''**Showing:** 2'', [],
        ''| name | price | zone_file | tags | constructor | note |'',
        ''|---|---|---|---|---|---|'',
        ''| example.com | 0.00744 | - | [object] | [object] | 01234567890123456789012345678901234567890123456789 |'',
        ''| example.org | - | - | - | function Object() { [native code] } | - |''])"
    using md [rule_format, OF wide_list, of no_stringify]
    by (simp add: o h keys and_then_def member_of_def sample_inherited_def opt_prop_def newline_def)
  then show ?thesis
    using tag by simp
qed

text \<open>
  C9 as stated fails on a list that holds \<^verbatim>\<open>null\<close>: under the tag \<^verbatim>\<open>domains\<close> the page
  with the items \<^verbatim>\<open>[{"name":"example.com"}, null]\<close> is not rendered, the read of
  \<^verbatim>\<open>record[k]\<close> on the second item throws.
\<close>

theorem generic_table_null_item_counterexample:
  "''domains'' \<notin> set [''droplets'', ''volumes'', ''firewalls'', ''load_balancers'', ''vpcs'',
                               ''kubernetes_clusters'', ''databases'', ''apps'']
 \<and> map_of page_with_null_item ''items''
      = Some (JArr [JObj [(''name'', JStr ''example.com'')], JNull])
 \<and> formatAsMarkdown no_stringify sample_inherited (JObj page_with_null_item) ''domains''
      = Inl TypeError"
  by (simp add: page_with_null_item_def formatAsMarkdown_def formatPaginatedAsMarkdown_def
      page_heading_def items_table_def formatGenericTable_def table_of_def read_member_def
      and_then_def Let_def member_of_def sample_inherited_def opt_prop_def)



end
